theory Spec2Isabelle
  imports Complex_Main "HOL-Library.Sublist" "HOL-Library.Log_Nat"
begin

section \<open>JavaScript values\<close>

text \<open>
  The application is a React client written in JavaScript. Strings are modelled as
  \<open>string\<close> (code units below 256) and a value that may be \<open>undefined\<close> as an
  \<open>option\<close>, with \<open>None\<close> for \<open>undefined\<close>. The values that reach the
  code from the evaluation service are JSON values; a JSON number is held by its
  value, and is rounded to a binary64 number where it enters arithmetic.
\<close>

datatype json =
    JNull
  | JBool bool
  | JNum rat
  | JStr string
  | JArr "json list"
  | JObj "(string \<times> json) list"

type_synonym jsval = "json option"

text \<open>
  Numbers are IEEE 754 binary64 values: a finite value (an exact rational; \<open>Fin 0\<close>
  is the positive zero), the negative zero, the two infinities and \<open>NaN\<close>. Every
  arithmetic operation gives the exact result rounded to the nearest binary64
  value, ties to the even significand.
\<close>

datatype jsnum = Fin rat | NegZero | PInf | NInf | NaN

text \<open>The integer nearest to a rational, a tie going to the even one.\<close>

definition rne :: "rat \<Rightarrow> int" where
  "rne a =
     (let f = \<lfloor>a\<rfloor>; d = a - of_int f in
      if d < 1 / 2 then f
      else if 1 / 2 < d then f + 1
      else if even f then f else f + 1)"

text \<open>
  The binary exponent of a positive rational \<open>x\<close>: the \<open>k\<close> with
  \<open>2 powi k \<le> x < 2 powi (k + 1)\<close>, found from the bit lengths of numerator and denominator.
\<close>

definition ilog2 :: "rat \<Rightarrow> int" where
  "ilog2 x =
     (let k = bitlen (fst (quotient_of x)) - bitlen (snd (quotient_of x)) in
      if 2 powi k \<le> x then k else k - 1)"

text \<open>
  The exponent of the unit in the last place of the binary64 values around \<open>x\<close>:
  53 significant bits, and no finer than \<open>2 powi (- 1074)\<close> (the subnormal range).
\<close>

definition ulp_exp :: "rat \<Rightarrow> int" where
  "ulp_exp x = max (ilog2 x - 52) (- 1074)"

text \<open>The multiple of the unit in the last place nearest to a positive \<open>x\<close>.\<close>

definition round_pos :: "rat \<Rightarrow> rat" where
  "round_pos x = of_int (rne (x / 2 powi ulp_exp x)) * 2 powi ulp_exp x"

text \<open>
  Rounding of an exact result to binary64: a magnitude that rounds to \<open>2 ^ 1024\<close> or
  more overflows to an infinity, a negative result that rounds to zero is the
  negative zero.
\<close>

definition overflow_bound :: rat where
  "overflow_bound = 2 ^ 1024"

definition round64 :: "rat \<Rightarrow> jsnum" where
  "round64 x =
     (if x = 0 then Fin 0
      else if 0 < x then
        (if overflow_bound \<le> round_pos x then PInf else Fin (round_pos x))
      else if overflow_bound \<le> round_pos (- x) then NInf
      else if round_pos (- x) = 0 then NegZero
      else Fin (- round_pos (- x)))"

fun is_zero :: "jsnum \<Rightarrow> bool" where
  "is_zero (Fin x) = (x = 0)"
| "is_zero NegZero = True"
| "is_zero v = False"

fun is_inf :: "jsnum \<Rightarrow> bool" where
  "is_inf PInf = True"
| "is_inf NInf = True"
| "is_inf v = False"

text \<open>The sign bit.\<close>

fun is_negative :: "jsnum \<Rightarrow> bool" where
  "is_negative (Fin x) = (x < 0)"
| "is_negative NegZero = True"
| "is_negative NInf = True"
| "is_negative v = False"

text \<open>The value of a finite number (both zeros have the value 0).\<close>

fun fin_value :: "jsnum \<Rightarrow> rat" where
  "fin_value (Fin x) = x"
| "fin_value v = 0"

definition zero_of :: "bool \<Rightarrow> jsnum" where
  "zero_of negative = (if negative then NegZero else Fin 0)"

definition inf_of :: "bool \<Rightarrow> jsnum" where
  "inf_of negative = (if negative then NInf else PInf)"

text \<open>The operators \<open>a / b\<close>, \<open>a * b\<close> and \<open>a - b\<close> on numbers.\<close>

definition js_div :: "jsnum \<Rightarrow> jsnum \<Rightarrow> jsnum" where
  "js_div a b =
     (if a = NaN \<or> b = NaN then NaN
      else if (is_inf a \<and> is_inf b) \<or> (is_zero a \<and> is_zero b) then NaN
      else if is_inf a \<or> is_zero b then inf_of (is_negative a \<noteq> is_negative b)
      else if is_zero a \<or> is_inf b then zero_of (is_negative a \<noteq> is_negative b)
      else round64 (fin_value a / fin_value b))"

definition js_mul :: "jsnum \<Rightarrow> jsnum \<Rightarrow> jsnum" where
  "js_mul a b =
     (if a = NaN \<or> b = NaN then NaN
      else if (is_zero a \<and> is_inf b) \<or> (is_inf a \<and> is_zero b) then NaN
      else if is_inf a \<or> is_inf b then inf_of (is_negative a \<noteq> is_negative b)
      else if is_zero a \<or> is_zero b then zero_of (is_negative a \<noteq> is_negative b)
      else round64 (fin_value a * fin_value b))"

definition js_sub :: "jsnum \<Rightarrow> jsnum \<Rightarrow> jsnum" where
  "js_sub a b =
     (if a = NaN \<or> b = NaN then NaN
      else if is_inf a then (if is_inf b \<and> is_negative a = is_negative b then NaN else a)
      else if is_inf b then inf_of (\<not> is_negative b)
      else if is_zero a \<and> is_zero b then
        (if is_negative a \<and> \<not> is_negative b then NegZero else Fin 0)
      else round64 (fin_value a - fin_value b))"

text \<open>The comparison \<open>a >= b\<close>; it is false when either side is \<open>NaN\<close>.\<close>

definition js_ge :: "jsnum \<Rightarrow> jsnum \<Rightarrow> bool" where
  "js_ge a b =
     (if a = NaN \<or> b = NaN then False
      else if a = PInf \<or> b = NInf then True
      else if a = NInf \<or> b = PInf then False
      else fin_value b \<le> fin_value a)"

text \<open>An error object; only its \<open>message\<close> is ever read by the code.\<close>

datatype js_error =
    Error string
  | TypeError string
  | SyntaxError string

fun message :: "js_error \<Rightarrow> string" where
  "message (Error m) = m"
| "message (TypeError m) = m"
| "message (SyntaxError m) = m"

text \<open>
  The built-ins of the engine that the code calls and that are not part of the
  repository: \<open>JSON.parse\<close>, the conversion of a non-string value to a string and
  of a non-primitive value or a string to a number, and the message texts of the
  type errors that the engine raises for a property read on \<open>null\<close> or
  \<open>undefined\<close> and for a call of a value that is not a function.
\<close>

record engine =
  JSON_parse :: "string \<Rightarrow> js_error + json"
  ToString :: "json \<Rightarrow> string"
  ToNumber :: "json \<Rightarrow> jsnum"
  null_read_message :: "string \<Rightarrow> string"
  not_a_function_message :: "string \<Rightarrow> string"

text \<open>Sequencing of computations that may throw.\<close>

fun bind_err :: "'e + 'a \<Rightarrow> ('a \<Rightarrow> 'e + 'b) \<Rightarrow> 'e + 'b" where
  "bind_err (Inl e) f = Inl e"
| "bind_err (Inr x) f = f x"

text \<open>Truthiness, as \<open>if (v)\<close>, \<open>!v\<close>, \<open>v && w\<close> and \<open>v || w\<close> test it.\<close>

fun js_truthy :: "jsval \<Rightarrow> bool" where
  "js_truthy None = False"
| "js_truthy (Some JNull) = False"
| "js_truthy (Some (JBool b)) = b"
| "js_truthy (Some (JNum r)) = (r \<noteq> 0)"
| "js_truthy (Some (JStr s)) = (s \<noteq> [])"
| "js_truthy (Some (JArr xs)) = True"
| "js_truthy (Some (JObj kvs)) = True"

text \<open>
  Property read \<open>v.k\<close> for the property names the code uses. Reading a property
  of \<open>null\<close> or \<open>undefined\<close> raises a type error. None of the names the code
  reads is inherited from a prototype, except \<open>length\<close> of arrays and strings.
\<close>

fun js_get :: "engine \<Rightarrow> json \<Rightarrow> string \<Rightarrow> js_error + jsval" where
  "js_get eng JNull k = Inl (TypeError (null_read_message eng k))"
| "js_get eng (JObj kvs) k = Inr (map_of kvs k)"
| "js_get eng (JArr xs) k =
     Inr (if k = ''length'' then Some (JNum (of_nat (length xs))) else None)"
| "js_get eng (JStr s) k =
     Inr (if k = ''length'' then Some (JNum (of_nat (length s))) else None)"
| "js_get eng (JBool b) k = Inr None"
| "js_get eng (JNum r) k = Inr None"

fun js_getv :: "engine \<Rightarrow> jsval \<Rightarrow> string \<Rightarrow> js_error + jsval" where
  "js_getv eng None k = Inl (TypeError (null_read_message eng k))"
| "js_getv eng (Some v) k = js_get eng v k"

text \<open>\<open>String(v)\<close>: the identity on strings, the engine's conversion elsewhere.\<close>

fun js_String :: "engine \<Rightarrow> json \<Rightarrow> string" where
  "js_String eng (JStr s) = s"
| "js_String eng v = ToString eng v"

text \<open>The conversion to a number that the arithmetic operators apply to an operand.\<close>

fun js_Number :: "engine \<Rightarrow> jsval \<Rightarrow> jsnum" where
  "js_Number eng None = NaN"
| "js_Number eng (Some JNull) = Fin 0"
| "js_Number eng (Some (JBool b)) = Fin (if b then 1 else 0)"
| "js_Number eng (Some (JNum r)) = round64 r"
| "js_Number eng (Some v) = ToNumber eng v"

section \<open>Strings\<close>

text \<open>The white space and line terminators that \<open>String.prototype.trim\<close> removes.\<close>

definition js_whitespace :: "char \<Rightarrow> bool" where
  "js_whitespace c \<longleftrightarrow>
     c \<in> {CHR 0x09, CHR 0x0A, CHR 0x0B, CHR 0x0C, CHR 0x0D, CHR 0x20, CHR 0xA0}"

definition trim :: "string \<Rightarrow> string" where
  "trim s = rev (dropWhile js_whitespace (rev (dropWhile js_whitespace s)))"

text \<open>Decimal digits of a natural number, as a template literal prints a length.\<close>

definition digit_char :: "nat \<Rightarrow> char" where
  "digit_char d = ''0123456789'' ! d"

function show_nat :: "nat \<Rightarrow> string" where
  "show_nat n =
     (if n < 10 then [digit_char n] else show_nat (n div 10) @ [digit_char (n mod 10)])"
  by pat_completeness auto
termination
  by (relation "measure id") auto

declare show_nat.simps [simp del]

text \<open>
  \<open>s.replace(/```json|```/g, '')\<close>: every match is removed, scanning from the left;
  at each position the longer alternative is tried first.
\<close>

definition fence :: string where
  "fence = [CHR 0x60, CHR 0x60, CHR 0x60]"

function strip_fences :: "string \<Rightarrow> string" where
  "strip_fences [] = []"
| "strip_fences (c # cs) =
     (if prefix (fence @ ''json'') (c # cs) then strip_fences (drop 7 (c # cs))
      else if prefix fence (c # cs) then strip_fences (drop 3 (c # cs))
      else c # strip_fences cs)"
  by pat_completeness auto
termination
  by (relation "measure length") auto

declare strip_fences.simps [simp del]

text \<open>\<open>s.replace(p, r)\<close> with a string pattern: the first occurrence is replaced.\<close>

fun replace_first :: "string \<Rightarrow> string \<Rightarrow> string \<Rightarrow> string" where
  "replace_first p r [] = (if p = [] then r else [])"
| "replace_first p r (c # cs) =
     (if prefix p (c # cs) then r @ drop (length p) (c # cs)
      else c # replace_first p r cs)"

text \<open>
  \<open>JSON.stringify\<close> on an array of strings: each string quoted, with the quote, the
  backslash and the control characters escaped, separated by commas, in brackets.
\<close>

definition hex_digit :: "nat \<Rightarrow> char" where
  "hex_digit d = ''0123456789abcdef'' ! d"

definition json_escape :: "char \<Rightarrow> string" where
  "json_escape c =
     (if c = CHR 0x22 then [CHR 0x5C, CHR 0x22]
      else if c = CHR 0x5C then [CHR 0x5C, CHR 0x5C]
      else if c = CHR 0x08 then [CHR 0x5C, CHR ''b'']
      else if c = CHR 0x0C then [CHR 0x5C, CHR ''f'']
      else if c = CHR 0x0A then [CHR 0x5C, CHR ''n'']
      else if c = CHR 0x0D then [CHR 0x5C, CHR ''r'']
      else if c = CHR 0x09 then [CHR 0x5C, CHR ''t'']
      else if of_char c < (32 :: nat) then
        [CHR 0x5C, CHR ''u'', CHR ''0'', CHR ''0'',
         hex_digit (of_char c div 16), hex_digit (of_char c mod 16)]
      else [c])"

definition json_quote :: "string \<Rightarrow> string" where
  "json_quote s = [CHR 0x22] @ concat (map json_escape s) @ [CHR 0x22]"

fun join_comma :: "string list \<Rightarrow> string" where
  "join_comma [] = []"
| "join_comma [x] = x"
| "join_comma (x # y # ys) = x @ '','' @ join_comma (y # ys)"

definition JSON_stringify :: "string list \<Rightarrow> string" where
  "JSON_stringify xs = ''['' @ join_comma (map json_quote xs) @ '']''"

section \<open>Dynamic list editor (EditableList.jsx)\<close>

text \<open>
  A JavaScript array write \<open>a[i] = v\<close>: inside the array it replaces the element,
  beyond its end it extends the array, leaving empty slots (read as \<open>undefined\<close>,
  here \<open>None\<close>) between the old end and \<open>i\<close>.
\<close>

definition js_array_set :: "'a option list \<Rightarrow> nat \<Rightarrow> 'a \<Rightarrow> 'a option list" where
  "js_array_set a i v =
     (if i < length a then a[i := Some v]
      else a @ replicate (i - length a) None @ [Some v])"

text \<open>
  \<^verbatim>\<open>
  const handleItemChange = (index, value) => {
    const newItems = [...items];
    newItems[index] = value;
    setItems(newItems);
  };
  \<close>
  The result is the array handed to \<open>setItems\<close>.
\<close>

definition handleItemChange :: "string list \<Rightarrow> nat \<Rightarrow> string \<Rightarrow> string option list" where
  "handleItemChange items index v = js_array_set (map Some items) index v"

text \<open>\<^verbatim>\<open>const addItem = () => { setItems([...items, '']); };\<close>\<close>

definition addItem :: "string list \<Rightarrow> string list" where
  "addItem items = items @ ['''']"

text \<open>
  \<^verbatim>\<open>
  const removeItem = (index) => {
    const newItems = items.filter((_, i) => i !== index);
    setItems(newItems);
  };
  \<close>
  \<open>filter\<close> passes each element with its position to the callback.
\<close>

definition removeItem :: "'a list \<Rightarrow> nat \<Rightarrow> 'a list" where
  "removeItem items index =
     map fst (filter (\<lambda>(_, i). i \<noteq> index) (zip items [0 ..< length items]))"

section \<open>Application state and effects (App.js)\<close>

record js_file =
  file_name :: string
  file_bytes :: "nat list"

text \<open>
  The state hooks of \<open>App\<close>. \<open>cvFile\<close> is \<open>None\<close> when it is \<open>null\<close> or
  \<open>undefined\<close>; \<open>evaluations\<close> holds whatever value the response carried.
\<close>

record app =
  cvFile :: "js_file option"
  jobUrls :: "string list"
  jobDescriptions :: "string list"
  apiKey :: string
  evaluations :: json
  activeTab :: nat
  loading :: bool
  loadingMessage :: string
  sidebarOpen :: bool
  activePage :: string
  currentView :: string

text \<open>The initial values of the hooks.\<close>

definition initial_app :: app where
  "initial_app =
     \<lparr>cvFile = None, jobUrls = [''''], jobDescriptions = [''''], apiKey = '''',
      evaluations = JArr [], activeTab = 0, loading = False, loadingMessage = '''',
      sidebarOpen = False, activePage = ''home'', currentView = ''input''\<rparr>"

datatype form_value = FileValue js_file | StringValue string

type_synonym formdata = "(string \<times> form_value) list"

text \<open>
  A handler reads the state of the render it was created in and issues effects in
  order: calls of the state setters, notifications, the network request and the
  operations on the document. A handler is modelled by the list of its effects;
  \<open>run\<close> applies the setter calls to a state.
\<close>

datatype event =
    SetCvFile "js_file option"
  | SetEvaluations json
  | SetActiveTab nat
  | SetLoading bool
  | SetLoadingMessage string
  | SetSidebarOpen bool
  | SetActivePage string
  | SetCurrentView string
  | ToastError string
  | ToastSuccess string
  | ConsoleError string js_error
  | Fetch string formdata
  | ScrollIntoView string
  | ClassListAdd string string
  | ClassListRemoveAfter string string nat

fun apply_event :: "app \<Rightarrow> event \<Rightarrow> app" where
  "apply_event s (SetCvFile f) = s\<lparr>cvFile := f\<rparr>"
| "apply_event s (SetEvaluations v) = s\<lparr>evaluations := v\<rparr>"
| "apply_event s (SetActiveTab n) = s\<lparr>activeTab := n\<rparr>"
| "apply_event s (SetLoading b) = s\<lparr>loading := b\<rparr>"
| "apply_event s (SetLoadingMessage m) = s\<lparr>loadingMessage := m\<rparr>"
| "apply_event s (SetSidebarOpen b) = s\<lparr>sidebarOpen := b\<rparr>"
| "apply_event s (SetActivePage p) = s\<lparr>activePage := p\<rparr>"
| "apply_event s (SetCurrentView v) = s\<lparr>currentView := v\<rparr>"
| "apply_event s e = s"

definition run :: "app \<Rightarrow> event list \<Rightarrow> app" where
  "run s evs = foldl apply_event s evs"

text \<open>The notifications and the network requests among the effects, in order.\<close>

fun is_toast :: "event \<Rightarrow> bool" where
  "is_toast (ToastError m) = True"
| "is_toast (ToastSuccess m) = True"
| "is_toast e = False"

fun is_fetch :: "event \<Rightarrow> bool" where
  "is_fetch (Fetch u d) = True"
| "is_fetch e = False"

definition toasts :: "event list \<Rightarrow> event list" where
  "toasts evs = filter is_toast evs"

definition fetches :: "event list \<Rightarrow> event list" where
  "fetches evs = filter is_fetch evs"

text \<open>What the handler reads of the browser: the window width and the document.\<close>

record browser =
  innerWidth :: int
  file_upload_section :: bool

text \<open>
  The outcome of \<open>fetch\<close>: the promise is rejected, or it gives a response with its
  \<open>ok\<close> flag and the result of \<open>response.json()\<close>, which throws on a body that is
  not JSON.
\<close>

datatype fetch_outcome =
    Rejected js_error
  | Response bool "js_error + json"

text \<open>
  \<^verbatim>\<open>
  const handleCvChange = (e) => { setCvFile(e.target.files[0]); };
  \<close>
  \<open>e.target.files\<close> is \<open>null\<close> (\<open>None\<close>) or a list of files; the first element of
  an empty list is \<open>undefined\<close>.
\<close>

record change_event =
  target_files :: "js_file list option"

definition handleCvChange :: "engine \<Rightarrow> change_event \<Rightarrow> js_error + event list" where
  "handleCvChange eng e =
     (case target_files e of
        None \<Rightarrow> Inl (TypeError (null_read_message eng ''0''))
      | Some fs \<Rightarrow> Inr [SetCvFile (case fs of [] \<Rightarrow> None | f # _ \<Rightarrow> Some f)])"

text \<open>
  \<^verbatim>\<open>
  const navigateTo = (page) => {
    setActivePage(page);
    if (window.innerWidth < 768) { setSidebarOpen(false); }
  };
  \<close>
\<close>

definition navigateTo :: "browser \<Rightarrow> string \<Rightarrow> event list" where
  "navigateTo w page =
     SetActivePage page # (if innerWidth w < 768 then [SetSidebarOpen False] else [])"

text \<open>
  The text of \<open>${data.evaluations.length}\<close> in the success message, for a truthy
  value of \<open>data.evaluations\<close>.
\<close>

fun length_text :: "engine \<Rightarrow> json \<Rightarrow> string" where
  "length_text eng (JArr xs) = show_nat (length xs)"
| "length_text eng (JStr s) = show_nat (length s)"
| "length_text eng (JObj kvs) =
     (case map_of kvs ''length'' of None \<Rightarrow> ''undefined'' | Some v \<Rightarrow> js_String eng v)"
| "length_text eng v = ''undefined''"

text \<open>
  The \<open>try\<close> block of \<open>handleSubmit\<close> from the response on: the effects it issues, or
  the error it throws to the \<open>catch\<close> clause.
  \<^verbatim>\<open>
      if (!response.ok) {
        const errorData = await response.json();
        throw new Error(errorData.detail || 'Failed to evaluate');
      }
      const data = await response.json();
      if (data.evaluations) {
        setEvaluations(data.evaluations);
        setActiveTab(0);
        toast.success(`Successfully evaluated ${data.evaluations.length} job matches!`);
        setCurrentView('results');
      }
  \<close>
\<close>

definition handleResponse :: "engine \<Rightarrow> fetch_outcome \<Rightarrow> js_error + event list" where
  "handleResponse eng r =
     (case r of
        Rejected e \<Rightarrow> Inl e
      | Response ok body \<Rightarrow>
          if \<not> ok then
            bind_err body (\<lambda>errorData.
            bind_err (js_get eng errorData ''detail'') (\<lambda>detail.
              Inl (Error (case detail of
                            None \<Rightarrow> ''Failed to evaluate''
                          | Some d \<Rightarrow> if js_truthy (Some d) then js_String eng d
                                       else ''Failed to evaluate''))))
          else
            bind_err body (\<lambda>data.
            bind_err (js_get eng data ''evaluations'') (\<lambda>evs.
              case evs of
                None \<Rightarrow> Inr []
              | Some v \<Rightarrow>
                  if js_truthy (Some v) then
                    Inr [SetEvaluations v, SetActiveTab 0,
                         ToastSuccess (''Successfully evaluated '' @ length_text eng v
                                       @ '' job matches!''),
                         SetCurrentView ''results'']
                  else Inr [])))"

text \<open>
  \<open>handleSubmit\<close> (lines 52 to 130 of the controller): the three checks, the form
  data, the request and the handling of its outcome. \<open>fetch\<close> gives the outcome of
  the request for the form data sent.
\<close>

definition evaluate_url :: string where
  "evaluate_url = ''http://localhost:8881/evaluate''"

definition handleSubmit ::
  "engine \<Rightarrow> browser \<Rightarrow> (formdata \<Rightarrow> fetch_outcome) \<Rightarrow> app \<Rightarrow> event list" where
  "handleSubmit eng w fetch s =
     (case cvFile s of
        None \<Rightarrow>
          [ToastError ''Please upload your CV file before submitting'', SetLoading False]
          @ (if file_upload_section w then
               [ScrollIntoView ''.file-upload-section'',
                ClassListAdd ''.file-upload-section'' ''validation-error'',
                ClassListRemoveAfter ''.file-upload-section'' ''validation-error'' 3000]
             else [])
      | Some f \<Rightarrow>
          (let validJobUrls = filter (\<lambda>url. trim url \<noteq> '''') (jobUrls s);
               validJobDescriptions = filter (\<lambda>desc. trim desc \<noteq> '''') (jobDescriptions s);
               formData =
                 [(''cv'', FileValue f)]
                 @ (if 0 < length validJobUrls
                    then [(''job_urls'', StringValue (JSON_stringify validJobUrls))] else [])
                 @ (if 0 < length validJobDescriptions
                    then [(''job_descriptions'',
                           StringValue (JSON_stringify validJobDescriptions))] else [])
           in [SetLoading True, SetLoadingMessage ''Preparing your data...'']
              @ (if length validJobUrls = 0 \<and> length validJobDescriptions = 0 then
                   [ToastError ''Please provide at least one job URL or description'',
                    SetLoading False]
                 else if trim (apiKey s) = '''' then
                   [ToastError ''API key is required'', SetLoading False]
                   @ navigateTo w ''settings''
                 else
                   [SetLoadingMessage ''Analyzing your resume against job requirements...'',
                    Fetch evaluate_url (formData @ [(''api_key'', StringValue (apiKey s))])]
                   @ (case handleResponse eng
                             (fetch (formData @ [(''api_key'', StringValue (apiKey s))])) of
                        Inl error \<Rightarrow>
                          [ConsoleError ''Error submitting data:'' error,
                           ToastError (if message error \<noteq> '''' then message error
                                       else ''An error occurred during evaluation'')]
                      | Inr evs \<Rightarrow> evs)
                   @ [SetLoading False, SetLoadingMessage ''''])))"

section \<open>File selector (FileUpload.jsx)\<close>

record file_upload =
  dragActive :: bool
  fileName :: string
  showReminder :: bool

datatype fu_event =
    SetDragActive bool
  | SetFileName string
  | SetShowReminder bool

fun apply_fu_event :: "file_upload \<Rightarrow> fu_event \<Rightarrow> file_upload" where
  "apply_fu_event u (SetDragActive b) = u\<lparr>dragActive := b\<rparr>"
| "apply_fu_event u (SetFileName n) = u\<lparr>fileName := n\<rparr>"
| "apply_fu_event u (SetShowReminder b) = u\<lparr>showReminder := b\<rparr>"

text \<open>
  The handlers of the file selector give the setter calls of the component and the
  result of the call of \<open>onFileChange\<close>, the callback of the parent: its effects or
  the error it throws, which the handler does not catch.
  \<^verbatim>\<open>
  const handleChange = (e) => {
    if (e.target.files && e.target.files[0]) {
      setFileName(e.target.files[0].name);
      setShowReminder(false);
      onFileChange(e);
    }
  };
  const clearFile = () => {
    setFileName('');
    onFileChange({ target: { files: null } });
  };
  \<close>
\<close>

definition handleChange ::
  "(change_event \<Rightarrow> js_error + event list) \<Rightarrow> change_event
     \<Rightarrow> fu_event list \<times> (js_error + event list)" where
  "handleChange onFileChange e =
     (case target_files e of
        Some (f # fs) \<Rightarrow> ([SetFileName (file_name f), SetShowReminder False], onFileChange e)
      | _ \<Rightarrow> ([], Inr []))"

definition clearFile ::
  "(change_event \<Rightarrow> js_error + event list) \<Rightarrow> fu_event list \<times> (js_error + event list)" where
  "clearFile onFileChange = ([SetFileName ''''], onFileChange \<lparr>target_files = None\<rparr>)"

text \<open>
  \<^verbatim>\<open>
  const handleDrop = (e) => {
    e.preventDefault();
    e.stopPropagation();
    setDragActive(false);
    if (e.dataTransfer.files && e.dataTransfer.files[0]) {
      setFileName(e.dataTransfer.files[0].name);
      setShowReminder(false);
      onFileChange({ target: { files: [e.dataTransfer.files[0]] } });
    }
  };
  \<close>
\<close>

record drop_event =
  dataTransfer_files :: "js_file list option"

definition handleDrop ::
  "(change_event \<Rightarrow> js_error + event list) \<Rightarrow> drop_event
     \<Rightarrow> fu_event list \<times> (js_error + event list)" where
  "handleDrop onFileChange e =
     (case dataTransfer_files e of
        Some (f # fs) \<Rightarrow>
          ([SetDragActive False, SetFileName (file_name f), SetShowReminder False],
           onFileChange \<lparr>target_files = Some [f]\<rparr>)
      | _ \<Rightarrow> ([SetDragActive False], Inr []))"

text \<open>
  A click on the clear button of the file selector mounted by \<open>App\<close> (line 139:
  \<open>onFileChange={handleCvChange}\<close>): the error the handler has thrown, if any, and
  the states of the component and of the application after the handler. Setter calls
  issued before an error are still applied.
\<close>

definition click_clear ::
  "engine \<Rightarrow> file_upload \<times> app \<Rightarrow> js_error option \<times> file_upload \<times> app" where
  "click_clear eng ua =
     (case clearFile (handleCvChange eng) of
        (fu, Inl err) \<Rightarrow> (Some err, foldl apply_fu_event (fst ua) fu, snd ua)
      | (fu, Inr evs) \<Rightarrow> (None, foldl apply_fu_event (fst ua) fu, run (snd ua) evs))"

section \<open>Evaluation renderer (EvaluationDetail.jsx)\<close>

text \<open>
  \<^verbatim>\<open>
  const getScoreColor = (score, total) => {
    let percentage = score / total * 100;
    if (percentage >= 80) return 'score-excellent';
    if (percentage >= 60) return 'score-good';
    if (percentage >= 40) return 'score-average';
    return 'score-poor';
  };
  \<close>
  \<open>getScoreLabel\<close> has the same body with the texts \<open>Excellent\<close>, \<open>Good\<close>,
  \<open>Average\<close> and \<open>Poor\<close>. The arguments are the operands of the division after
  their conversion to numbers (\<open>tot\<close> stands for \<open>total\<close>).
\<close>

definition getScoreColor :: "jsnum \<Rightarrow> jsnum \<Rightarrow> string" where
  "getScoreColor score tot =
     (let percentage = js_mul (js_div score tot) (Fin 100) in
      if js_ge percentage (Fin 80) then ''score-excellent''
      else if js_ge percentage (Fin 60) then ''score-good''
      else if js_ge percentage (Fin 40) then ''score-average''
      else ''score-poor'')"

definition getScoreLabel :: "jsnum \<Rightarrow> jsnum \<Rightarrow> string" where
  "getScoreLabel score tot =
     (let percentage = js_mul (js_div score tot) (Fin 100) in
      if js_ge percentage (Fin 80) then ''Excellent''
      else if js_ge percentage (Fin 60) then ''Good''
      else if js_ge percentage (Fin 40) then ''Average''
      else ''Poor'')"

text \<open>
  The \<open>try\<close> block at the head of the component, and the value of \<open>scoreData\<close>
  after the \<open>catch\<close> clause, which only logs the error.
  \<^verbatim>\<open>
  let scoreData = null;
  try {
    const jsonString = evaluation.score_and_explanation.replace(/```json|```/g, '').trim();
    scoreData = JSON.parse(jsonString);
  } catch (err) {
    console.error("Error parsing score_and_explanation:", err);
  }
  \<close>
  A value that is not a string has no \<open>replace\<close> method: the call raises a type
  error.
\<close>

definition parse_score :: "engine \<Rightarrow> jsval \<Rightarrow> js_error + json" where
  "parse_score eng evaluation =
     bind_err (js_getv eng evaluation ''score_and_explanation'') (\<lambda>text.
       case text of
         None \<Rightarrow> Inl (TypeError (null_read_message eng ''replace''))
       | Some JNull \<Rightarrow> Inl (TypeError (null_read_message eng ''replace''))
       | Some (JStr s) \<Rightarrow> JSON_parse eng (trim (strip_fences s))
       | Some v \<Rightarrow> Inl (TypeError (not_a_function_message eng ''replace'')))"

definition scoreData :: "engine \<Rightarrow> jsval \<Rightarrow> json" where
  "scoreData eng evaluation =
     (case parse_score eng evaluation of Inl err \<Rightarrow> JNull | Inr v \<Rightarrow> v)"

text \<open>
  What the component renders, by the values it places in the element tree: a score
  card per category and the block of the scores, or the raw text.
\<close>

record score_card =
  card_class :: string
  card_score :: jsval
  card_explanation :: jsval

record score_details =
  dash_offset :: jsnum
  circle_text :: jsval
  label_class :: string
  label_text :: string
  experience_card :: score_card
  skills_card :: score_card
  personality_card :: score_card
  summary_text :: jsval

datatype detail_body =
    ScoreDetails score_details
  | RawEvaluation jsval

record detail_view =
  view_title :: jsval
  view_link :: jsval
  view_description :: jsval
  view_body :: detail_body

text \<open>A category card: \<open>scoreData.k.score\<close> against its maximum, and \<open>scoreData.k.explanation\<close>.\<close>

definition render_card :: "engine \<Rightarrow> json \<Rightarrow> string \<Rightarrow> rat \<Rightarrow> js_error + score_card" where
  "render_card eng sd k tot =
     bind_err (js_get eng sd k) (\<lambda>category.
     bind_err (js_getv eng category ''score'') (\<lambda>score.
     bind_err (js_getv eng category ''explanation'') (\<lambda>explanation.
       Inr \<lparr>card_class = getScoreColor (js_Number eng score) (Fin tot),
            card_score = score, card_explanation = explanation\<rparr>)))"

definition render_scores :: "engine \<Rightarrow> json \<Rightarrow> js_error + score_details" where
  "render_scores eng sd =
     bind_err (js_get eng sd ''overall_score'') (\<lambda>overall.
     bind_err (render_card eng sd ''experience'' 40) (\<lambda>experience.
     bind_err (render_card eng sd ''skills'' 40) (\<lambda>skills.
     bind_err (render_card eng sd ''personality'' 20) (\<lambda>personality.
     bind_err (js_get eng sd ''overall_explanation'') (\<lambda>explanation.
       Inr \<lparr>dash_offset =
              js_sub (round64 (28902 / 100))
                (js_div (js_mul (round64 (28902 / 100)) (js_Number eng overall)) (Fin 100)),
            circle_text = overall,
            label_class =
              replace_first ''score-'' '''' (getScoreColor (js_Number eng overall) (Fin 100)),
            label_text = getScoreLabel (js_Number eng overall) (Fin 100),
            experience_card = experience, skills_card = skills,
            personality_card = personality, summary_text = explanation\<rparr>)))))"

text \<open>
  The component: the header and the description are rendered from the evaluation,
  then the scores when \<open>scoreData\<close> is truthy, and the text of
  \<open>evaluation.score_and_explanation\<close> as it is otherwise (lines 129 to 133). The link
  is rendered when \<open>job_url\<close> is truthy. The result is the rendered view, or the error
  that the component throws.
\<close>

definition EvaluationDetail :: "engine \<Rightarrow> jsval \<Rightarrow> js_error + detail_view" where
  "EvaluationDetail eng evaluation =
     (let sd = scoreData eng evaluation in
      bind_err (js_getv eng evaluation ''job_title'') (\<lambda>job_title.
      bind_err (js_getv eng evaluation ''job_url'') (\<lambda>job_url.
      bind_err (js_getv eng evaluation ''job_description'') (\<lambda>job_description.
      bind_err
        (if js_truthy (Some sd) then
           bind_err (render_scores eng sd) (\<lambda>d. Inr (ScoreDetails d))
         else
           bind_err (js_getv eng evaluation ''score_and_explanation'') (\<lambda>raw.
             Inr (RawEvaluation raw)))
        (\<lambda>b. Inr \<lparr>view_title = job_title, view_link = job_url,
                    view_description = job_description, view_body = b\<rparr>)))))"

section \<open>Tab selector (EvaluationTabs.jsx)\<close>

text \<open>
  \<^verbatim>\<open>
  if (!evaluations || evaluations.length === 0) { return null; }
  \<close>
  then one button per evaluation, labelled by its \<open>job_title\<close>, and the detail of
  \<open>evaluations[activeTab]\<close>, which is \<open>undefined\<close> beyond the end of the list. The
  result is \<open>None\<close> when nothing is rendered. A value that is not an array has no
  \<open>map\<close> method.
\<close>

record tabs_view =
  tab_labels :: "jsval list"
  tab_content :: detail_view

fun nth_opt :: "'a list \<Rightarrow> nat \<Rightarrow> 'a option" where
  "nth_opt [] i = None"
| "nth_opt (x # xs) 0 = Some x"
| "nth_opt (x # xs) (Suc i) = nth_opt xs i"

fun map_err :: "('a \<Rightarrow> 'e + 'b) \<Rightarrow> 'a list \<Rightarrow> 'e + 'b list" where
  "map_err f [] = Inr []"
| "map_err f (x # xs) = bind_err (f x) (\<lambda>y. bind_err (map_err f xs) (\<lambda>ys. Inr (y # ys)))"

definition EvaluationTabs :: "engine \<Rightarrow> json \<Rightarrow> nat \<Rightarrow> js_error + tabs_view option" where
  "EvaluationTabs eng evs tab =
     (if \<not> js_truthy (Some evs) then Inr None
      else if js_get eng evs ''length'' = Inr (Some (JNum 0)) then Inr None
      else case evs of
        JArr xs \<Rightarrow>
          bind_err (map_err (\<lambda>evalItem. js_get eng evalItem ''job_title'') xs) (\<lambda>labels.
          bind_err (EvaluationDetail eng (nth_opt xs tab)) (\<lambda>d.
            Inr (Some \<lparr>tab_labels = labels, tab_content = d\<rparr>)))
      | _ \<Rightarrow> Inl (TypeError (not_a_function_message eng ''map'')))"

section \<open>Notions used in the statements\<close>

text \<open>
  A request that does not succeed: the promise of \<open>fetch\<close> is rejected, the response
  is not \<open>ok\<close>, or its body is not JSON.
\<close>

definition failed_outcome :: "fetch_outcome \<Rightarrow> bool" where
  "failed_outcome r =
     (case r of
        Rejected e \<Rightarrow> True
      | Response ok body \<Rightarrow> (if ok then (case body of Inl e \<Rightarrow> True | Inr d \<Rightarrow> False) else True))"

text \<open>The entries of a list that are not blank after trimming, in their order.\<close>

abbreviation nonblank :: "string list \<Rightarrow> string list" where
  "nonblank xs \<equiv> filter (\<lambda>x. trim x \<noteq> '''') xs"

text \<open>
  The form data of the request, as \<open>handleSubmit\<close> builds it by its calls of
  \<open>formData.append\<close>, for the file \<open>f\<close> and the state \<open>s\<close>.
\<close>

abbreviation payload :: "js_file \<Rightarrow> app \<Rightarrow> formdata" where
  "payload f s \<equiv>
     [(''cv'', FileValue f)]
     @ (if 0 < length (nonblank (jobUrls s))
        then [(''job_urls'', StringValue (JSON_stringify (nonblank (jobUrls s))))] else [])
     @ (if 0 < length (nonblank (jobDescriptions s))
        then [(''job_descriptions'', StringValue (JSON_stringify (nonblank (jobDescriptions s))))]
        else [])
     @ [(''api_key'', StringValue (apiKey s))]"

text \<open>
  Concrete inputs for the examples: an engine whose \<open>JSON.parse\<close> knows the three
  literals and rejects every other text, a file, a browser window and a filled form.
\<close>

definition example_engine :: engine where
  "example_engine =
     \<lparr>JSON_parse = (\<lambda>s. if s = ''null'' then Inr JNull
                         else if s = ''true'' then Inr (JBool True)
                         else if s = ''false'' then Inr (JBool False)
                         else Inl (SyntaxError ''Unexpected token'')),
      ToString = (\<lambda>v. ''[object Object]''),
      ToNumber = (\<lambda>v. NaN),
      null_read_message = (\<lambda>k. ''Cannot read properties of null (reading '' @ k @ '')''),
      not_a_function_message = (\<lambda>k. k @ '' is not a function'')\<rparr>"

definition example_file :: js_file where
  "example_file = \<lparr>file_name = ''cv.pdf'', file_bytes = [37, 80, 68, 70]\<rparr>"

definition example_browser :: browser where
  "example_browser = \<lparr>innerWidth = 1280, file_upload_section = True\<rparr>"

definition example_app :: app where
  "example_app =
     initial_app\<lparr>cvFile := Some example_file, jobUrls := ['''', ''http://a'', ''''],
                 apiKey := ''sk-1''\<rparr>"

section \<open>Properties of the list editor\<close>

lemma removeItem_Nil: "removeItem [] i = []"
  by (simp add: removeItem_def)

lemma filter_zip_shift:
  "map fst (filter (\<lambda>(_, i). i \<noteq> Suc k) (zip xs [Suc n ..< Suc n + length xs]))
   = map fst (filter (\<lambda>(_, i). i \<noteq> k) (zip xs [n ..< n + length xs]))"
proof (induction xs arbitrary: n)
  case Nil
  show ?case by simp
next
  case (Cons x xs)
  have "[Suc n ..< Suc n + length (x # xs)] = Suc n # [Suc (Suc n) ..< Suc (Suc n) + length xs]"
    by (simp add: upt_rec)
  moreover have "[n ..< n + length (x # xs)] = n # [Suc n ..< Suc n + length xs]"
    by (simp add: upt_rec)
  ultimately show ?case
    using Cons.IH [of "Suc n"] by simp
qed

lemma filter_zip_above:
  "k < n \<Longrightarrow> map fst (filter (\<lambda>(_, i). i \<noteq> k) (zip xs [n ..< n + length xs])) = xs"
proof (induction xs arbitrary: n)
  case Nil
  show ?case by simp
next
  case (Cons x xs)
  have "[n ..< n + length (x # xs)] = n # [Suc n ..< Suc n + length xs]"
    by (simp add: upt_rec)
  then show ?case
    using Cons.IH [of "Suc n"] Cons.prems by simp
qed

lemma removeItem_Cons_0: "removeItem (x # xs) 0 = xs"
proof -
  have "[0 ..< length (x # xs)] = 0 # [Suc 0 ..< Suc 0 + length xs]"
    by (simp add: upt_rec)
  then show ?thesis
    using filter_zip_above [of 0 "Suc 0" xs] by (simp add: removeItem_def)
qed

lemma removeItem_Cons_Suc: "removeItem (x # xs) (Suc k) = x # removeItem xs k"
proof -
  have "[0 ..< length (x # xs)] = 0 # [Suc 0 ..< Suc 0 + length xs]"
    by (simp add: upt_rec)
  then show ?thesis
    using filter_zip_shift [of k xs 0] by (simp add: removeItem_def)
qed

lemma removeItem_take_drop:
  "removeItem xs i = take i xs @ drop (Suc i) xs"
proof (induction xs arbitrary: i)
  case Nil
  show ?case by (simp add: removeItem_Nil)
next
  case (Cons x xs)
  show ?case
  proof (cases i)
    case 0
    then show ?thesis by (simp add: removeItem_Cons_0)
  next
    case (Suc k)
    then show ?thesis by (simp add: removeItem_Cons_Suc Cons.IH)
  qed
qed

lemma handleItemChange_in_bounds:
  "index < length items \<Longrightarrow> handleItemChange items index v = map Some (items[index := v])"
  by (simp add: handleItemChange_def js_array_set_def map_update)

text \<open>
  Claim C9. For every sequence and every index inside it, \<open>removeItem\<close> deletes
  exactly the element at that index: the result is the elements before the index
  followed by the elements after it, it is one shorter, the elements before the index
  keep their positions and every later element moves down by one. Removing the only
  entry of a sequence leaves the empty sequence; no blank entry is put back.
\<close>

theorem removeItem_deletes_index:
  assumes "index < length items"
  shows "removeItem items index = take index items @ drop (Suc index) items
       \<and> length (removeItem items index) = length items - 1
       \<and> (\<forall>j. j < index \<longrightarrow> removeItem items index ! j = items ! j)
       \<and> (\<forall>j. index \<le> j \<and> j < length items - 1 \<longrightarrow> removeItem items index ! j = items ! Suc j)
       \<and> removeItem [x] 0 = []"
proof -
  let ?r = "removeItem items index"
  have eq: "?r = take index items @ drop (Suc index) items"
    by (rule removeItem_take_drop)
  have len: "length ?r = length items - 1"
    using assms by (simp add: eq)
  have low: "\<forall>j. j < index \<longrightarrow> ?r ! j = items ! j"
    using assms by (simp add: eq nth_append)
  have high: "\<forall>j. index \<le> j \<and> j < length items - 1 \<longrightarrow> ?r ! j = items ! Suc j"
  proof (intro allI impI)
    fix j
    assume j: "index \<le> j \<and> j < length items - 1"
    then have "?r ! j = drop (Suc index) items ! (j - index)"
      using assms by (simp add: eq nth_append)
    also have "\<dots> = items ! (Suc index + (j - index))"
      using j assms by simp
    finally show "?r ! j = items ! Suc j"
      using j by simp
  qed
  have last: "removeItem [x] 0 = []"
    by (simp add: removeItem_Cons_0)
  show ?thesis
    using eq len low high last by blast
qed

theorem removeItem_deletes_index_witness:
  "removeItem [''a'', ''b'', ''c''] 1 = [''a'', ''c'']
   \<and> removeItem [''only''] 0 = ([] :: string list)"
  using removeItem_deletes_index [of 1 "[''a'', ''b'', ''c'']" "''only''"] by simp




section \<open>Properties of the submission\<close>

lemma handleSubmit_no_file:
  "cvFile s = None \<Longrightarrow>
   handleSubmit eng w fetch s =
     [ToastError ''Please upload your CV file before submitting'', SetLoading False]
     @ (if file_upload_section w then
          [ScrollIntoView ''.file-upload-section'',
           ClassListAdd ''.file-upload-section'' ''validation-error'',
           ClassListRemoveAfter ''.file-upload-section'' ''validation-error'' 3000]
        else [])"
  by (simp add: handleSubmit_def)

lemma handleSubmit_no_target:
  "cvFile s = Some f \<Longrightarrow> nonblank (jobUrls s) = [] \<Longrightarrow> nonblank (jobDescriptions s) = [] \<Longrightarrow>
   handleSubmit eng w fetch s =
     [SetLoading True, SetLoadingMessage ''Preparing your data...'',
      ToastError ''Please provide at least one job URL or description'', SetLoading False]"
  by (simp add: handleSubmit_def)

lemma handleSubmit_no_key:
  "cvFile s = Some f \<Longrightarrow> \<not> (nonblank (jobUrls s) = [] \<and> nonblank (jobDescriptions s) = []) \<Longrightarrow>
   trim (apiKey s) = '''' \<Longrightarrow>
   handleSubmit eng w fetch s =
     [SetLoading True, SetLoadingMessage ''Preparing your data...'',
      ToastError ''API key is required'', SetLoading False] @ navigateTo w ''settings''"
  by (auto simp add: handleSubmit_def Let_def)

lemma handleSubmit_request:
  "cvFile s = Some f \<Longrightarrow> \<not> (nonblank (jobUrls s) = [] \<and> nonblank (jobDescriptions s) = []) \<Longrightarrow>
   trim (apiKey s) \<noteq> '''' \<Longrightarrow>
   handleSubmit eng w fetch s =
     [SetLoading True, SetLoadingMessage ''Preparing your data...'',
      SetLoadingMessage ''Analyzing your resume against job requirements...'',
      Fetch evaluate_url (payload f s)]
     @ (case handleResponse eng (fetch (payload f s)) of
          Inl error \<Rightarrow>
            [ConsoleError ''Error submitting data:'' error,
             ToastError (if message error \<noteq> '''' then message error
                         else ''An error occurred during evaluation'')]
        | Inr evs \<Rightarrow> evs)
     @ [SetLoading False, SetLoadingMessage '''']"
  by (auto simp add: handleSubmit_def Let_def)

lemma handleResponse_not_ok:
  "\<exists>e. handleResponse eng (Response False b) = Inl e"
proof (cases b)
  case (Inl e)
  then show ?thesis by (simp add: handleResponse_def)
next
  case (Inr errorData)
  then show ?thesis
    by (cases "js_get eng errorData ''detail''") (simp_all add: handleResponse_def)
qed

lemma handleResponse_failed:
  assumes "failed_outcome r"
  shows "\<exists>e. handleResponse eng r = Inl e"
proof (cases r)
  case (Rejected e)
  then show ?thesis by (simp add: handleResponse_def)
next
  case (Response ok b)
  show ?thesis
  proof (cases ok)
    case False
    with Response show ?thesis using handleResponse_not_ok by simp
  next
    case True
    with Response assms obtain e where "b = Inl e"
      by (auto simp add: failed_outcome_def split: sum.splits)
    with Response True show ?thesis by (simp add: handleResponse_def)
  qed
qed

lemma run_simps:
  "run s [] = s"
  "run s (e # evs) = run (apply_event s e) evs"
  "run s (xs @ ys) = run (run s xs) ys"
  by (simp_all add: run_def)

lemma trim_examples:
  "trim '''' = ''''" "trim ''http://a'' = ''http://a''" "trim ''sk-1'' = ''sk-1''"
  "trim '' '' = ''''"
  by (simp_all add: trim_def js_whitespace_def)

text \<open>
  Claim C1. For every starting state the three checks of \<open>handleSubmit\<close> come in a
  fixed order. With no file, whatever the other fields hold, the only notification
  is the missing-file message, no request is issued, \<open>loading\<close> is never set
  (the check comes before the controller enters its submitting state) and the page
  is unchanged. With a file and no job target that is not blank, whatever the
  credential, the only notification is the job-target message, no request is issued
  and the page is unchanged. With a file, a job target and a blank credential, the
  only notification is the credential message, no request is issued and the page
  is \<open>settings\<close>. In all three cases the controller is idle afterwards.
\<close>

theorem submit_preflight_checks:
  "(cvFile s = None \<longrightarrow>
      toasts (handleSubmit eng w fetch s)
        = [ToastError ''Please upload your CV file before submitting'']
      \<and> fetches (handleSubmit eng w fetch s) = []
      \<and> SetLoading True \<notin> set (handleSubmit eng w fetch s)
      \<and> \<not> loading (run s (handleSubmit eng w fetch s))
      \<and> activePage (run s (handleSubmit eng w fetch s)) = activePage s)
   \<and> (cvFile s \<noteq> None \<and> nonblank (jobUrls s) = [] \<and> nonblank (jobDescriptions s) = [] \<longrightarrow>
      toasts (handleSubmit eng w fetch s)
        = [ToastError ''Please provide at least one job URL or description'']
      \<and> fetches (handleSubmit eng w fetch s) = []
      \<and> \<not> loading (run s (handleSubmit eng w fetch s))
      \<and> activePage (run s (handleSubmit eng w fetch s)) = activePage s)
   \<and> (cvFile s \<noteq> None \<and> \<not> (nonblank (jobUrls s) = [] \<and> nonblank (jobDescriptions s) = [])
        \<and> trim (apiKey s) = '''' \<longrightarrow>
      toasts (handleSubmit eng w fetch s) = [ToastError ''API key is required'']
      \<and> fetches (handleSubmit eng w fetch s) = []
      \<and> \<not> loading (run s (handleSubmit eng w fetch s))
      \<and> activePage (run s (handleSubmit eng w fetch s)) = ''settings'')"
proof (intro conjI impI)
  assume "cvFile s = None"
  note ev = handleSubmit_no_file [OF this, of eng w fetch]
  show "toasts (handleSubmit eng w fetch s)
          = [ToastError ''Please upload your CV file before submitting'']"
    by (simp add: ev toasts_def)
  show "fetches (handleSubmit eng w fetch s) = []"
    by (simp add: ev fetches_def)
  show "SetLoading True \<notin> set (handleSubmit eng w fetch s)"
    by (simp add: ev)
  show "\<not> loading (run s (handleSubmit eng w fetch s))"
    by (simp add: ev run_simps)
  show "activePage (run s (handleSubmit eng w fetch s)) = activePage s"
    by (simp add: ev run_simps)
next
  assume a: "cvFile s \<noteq> None \<and> nonblank (jobUrls s) = [] \<and> nonblank (jobDescriptions s) = []"
  then obtain f where "cvFile s = Some f" by auto
  with a have ev: "handleSubmit eng w fetch s =
     [SetLoading True, SetLoadingMessage ''Preparing your data...'',
      ToastError ''Please provide at least one job URL or description'', SetLoading False]"
    by (simp add: handleSubmit_no_target)
  show "toasts (handleSubmit eng w fetch s)
          = [ToastError ''Please provide at least one job URL or description'']"
    by (simp add: ev toasts_def)
  show "fetches (handleSubmit eng w fetch s) = []"
    by (simp add: ev fetches_def)
  show "\<not> loading (run s (handleSubmit eng w fetch s))"
    by (simp add: ev run_simps)
  show "activePage (run s (handleSubmit eng w fetch s)) = activePage s"
    by (simp add: ev run_simps)
next
  assume a: "cvFile s \<noteq> None
      \<and> \<not> (nonblank (jobUrls s) = [] \<and> nonblank (jobDescriptions s) = [])
      \<and> trim (apiKey s) = ''''"
  then obtain f where "cvFile s = Some f" by auto
  with a have ev: "handleSubmit eng w fetch s =
     [SetLoading True, SetLoadingMessage ''Preparing your data...'',
      ToastError ''API key is required'', SetLoading False] @ navigateTo w ''settings''"
    using handleSubmit_no_key [of s f eng w fetch] by simp
  show "toasts (handleSubmit eng w fetch s) = [ToastError ''API key is required'']"
    by (simp add: ev toasts_def navigateTo_def)
  show "fetches (handleSubmit eng w fetch s) = []"
    by (simp add: ev fetches_def navigateTo_def)
  show "\<not> loading (run s (handleSubmit eng w fetch s))"
    by (simp add: ev run_simps navigateTo_def)
  show "activePage (run s (handleSubmit eng w fetch s)) = ''settings''"
    by (simp add: ev run_simps navigateTo_def)
qed

theorem submit_preflight_checks_witness:
  "toasts (handleSubmit example_engine example_browser (\<lambda>d. Rejected (Error ''offline'')) initial_app)
     = [ToastError ''Please upload your CV file before submitting'']
   \<and> toasts (handleSubmit example_engine example_browser (\<lambda>d. Rejected (Error ''offline''))
               (initial_app\<lparr>cvFile := Some example_file, apiKey := ''sk-1''\<rparr>))
     = [ToastError ''Please provide at least one job URL or description'']
   \<and> activePage (run (example_app\<lparr>apiKey := '' ''\<rparr>)
        (handleSubmit example_engine example_browser (\<lambda>d. Rejected (Error ''offline''))
           (example_app\<lparr>apiKey := '' ''\<rparr>)))
     = ''settings''"
  using submit_preflight_checks [of initial_app example_engine example_browser
      "\<lambda>d. Rejected (Error ''offline'')"]
    submit_preflight_checks [of "initial_app\<lparr>cvFile := Some example_file, apiKey := ''sk-1''\<rparr>"
      example_engine example_browser "\<lambda>d. Rejected (Error ''offline'')"]
    submit_preflight_checks [of "example_app\<lparr>apiKey := '' ''\<rparr>"
      example_engine example_browser "\<lambda>d. Rejected (Error ''offline'')"]
  by (simp add: initial_app_def example_app_def trim_examples)

lemma handleResponse_events:
  assumes "handleResponse eng r = Inr evs"
  shows "evs = [] \<or>
         (\<exists>v. js_truthy (Some v) \<and>
              evs = [SetEvaluations v, SetActiveTab 0,
                     ToastSuccess (''Successfully evaluated '' @ length_text eng v
                                   @ '' job matches!''),
                     SetCurrentView ''results''])"
proof (cases r)
  case (Rejected e)
  with assms show ?thesis by (simp add: handleResponse_def)
next
  case (Response ok b)
  show ?thesis
  proof (cases ok)
    case False
    with Response assms handleResponse_not_ok [of eng b] show ?thesis by simp
  next
    case True
    show ?thesis
    proof (cases b)
      case (Inl e)
      with Response True assms show ?thesis by (simp add: handleResponse_def)
    next
      case (Inr data)
      show ?thesis
      proof (cases "js_get eng data ''evaluations''")
        case (Inl e)
        with Response True Inr assms show ?thesis by (simp add: handleResponse_def)
      next
        case got: (Inr evals)
        with Response True Inr assms show ?thesis
          by (cases evals) (auto simp add: handleResponse_def split: if_splits)
      qed
    qed
  qed
qed

lemma handleResponse_list:
  "map_of kvs ''evaluations'' = Some (JArr xs) \<Longrightarrow>
   handleResponse eng (Response True (Inr (JObj kvs))) =
     Inr [SetEvaluations (JArr xs), SetActiveTab 0,
          ToastSuccess (''Successfully evaluated '' @ show_nat (length xs) @ '' job matches!''),
          SetCurrentView ''results'']"
  by (simp add: handleResponse_def)

lemma handleResponse_absent:
  "js_get eng data ''evaluations'' = Inr None \<Longrightarrow>
   handleResponse eng (Response True (Inr data)) = Inr []"
  by (simp add: handleResponse_def)

lemma show_nat_digit: "n < 10 \<Longrightarrow> show_nat n = [digit_char n]"
  by (simp add: show_nat.simps)

text \<open>
  Claim C2. For every submission that passes the three checks and whose response is
  successful and carries a list \<open>xs\<close> of evaluations, whatever the results, the tab
  index and the view were before: the results are exactly \<open>xs\<close> afterwards, the
  active tab is 0, the view is \<open>results\<close>, the only notification is the success
  message with the number of evaluations, and the controller is idle again.
\<close>

theorem submit_success_replaces_results:
  assumes "cvFile s = Some f"
    and "\<not> (nonblank (jobUrls s) = [] \<and> nonblank (jobDescriptions s) = [])"
    and "trim (apiKey s) \<noteq> ''''"
    and "fetch (payload f s) = Response True (Inr (JObj kvs))"
    and "map_of kvs ''evaluations'' = Some (JArr xs)"
  shows "evaluations (run s (handleSubmit eng w fetch s)) = JArr xs
       \<and> activeTab (run s (handleSubmit eng w fetch s)) = 0
       \<and> currentView (run s (handleSubmit eng w fetch s)) = ''results''
       \<and> toasts (handleSubmit eng w fetch s)
           = [ToastSuccess (''Successfully evaluated '' @ show_nat (length xs)
                            @ '' job matches!'')]
       \<and> \<not> loading (run s (handleSubmit eng w fetch s))"
proof -
  have ev: "handleSubmit eng w fetch s =
     [SetLoading True, SetLoadingMessage ''Preparing your data...'',
      SetLoadingMessage ''Analyzing your resume against job requirements...'',
      Fetch evaluate_url (payload f s),
      SetEvaluations (JArr xs), SetActiveTab 0,
      ToastSuccess (''Successfully evaluated '' @ show_nat (length xs) @ '' job matches!''),
      SetCurrentView ''results'', SetLoading False, SetLoadingMessage '''']"
    using handleSubmit_request [OF assms(1-3), of eng w fetch] assms(4)
      handleResponse_list [OF assms(5), of eng]
    by simp
  show ?thesis
    unfolding ev by (simp add: run_simps toasts_def)
qed

theorem submit_success_replaces_results_witness:
  "evaluations (run (example_app\<lparr>evaluations := JArr [JNull], activeTab := 5\<rparr>)
     (handleSubmit example_engine example_browser
        (\<lambda>d. Response True (Inr (JObj [(''evaluations'', JArr [JObj [], JObj []])])))
        (example_app\<lparr>evaluations := JArr [JNull], activeTab := 5\<rparr>)))
     = JArr [JObj [], JObj []]
   \<and> toasts (handleSubmit example_engine example_browser
        (\<lambda>d. Response True (Inr (JObj [(''evaluations'', JArr [JObj [], JObj []])])))
        (example_app\<lparr>evaluations := JArr [JNull], activeTab := 5\<rparr>))
     = [ToastSuccess ''Successfully evaluated 2 job matches!'']"
  using submit_success_replaces_results
    [of "example_app\<lparr>evaluations := JArr [JNull], activeTab := 5\<rparr>" example_file
        "\<lambda>d. Response True (Inr (JObj [(''evaluations'', JArr [JObj [], JObj []])]))"
        "[(''evaluations'', JArr [JObj [], JObj []])]" "[JObj [], JObj []]"
        example_engine example_browser]
  by (simp add: example_app_def initial_app_def trim_examples show_nat_digit digit_char_def)

text \<open>
  Claim C3. For every submission that fails, at one of the three checks or because
  the request is rejected, the response is not successful or its body is not JSON, the
  results, the active tab index and the view are the same after the submission as
  before it.
\<close>

theorem failed_submit_keeps_results:
  assumes "cvFile s = None
      \<or> (nonblank (jobUrls s) = [] \<and> nonblank (jobDescriptions s) = [])
      \<or> trim (apiKey s) = ''''
      \<or> (\<exists>f. cvFile s = Some f \<and> failed_outcome (fetch (payload f s)))"
  shows "evaluations (run s (handleSubmit eng w fetch s)) = evaluations s
       \<and> activeTab (run s (handleSubmit eng w fetch s)) = activeTab s
       \<and> currentView (run s (handleSubmit eng w fetch s)) = currentView s"
proof (cases "cvFile s")
  case None
  then show ?thesis
    by (simp add: handleSubmit_no_file run_simps)
next
  case (Some f)
  show ?thesis
  proof (cases "nonblank (jobUrls s) = [] \<and> nonblank (jobDescriptions s) = []")
    case True
    with Some show ?thesis
      by (simp add: handleSubmit_no_target run_simps)
  next
    case targets: False
    show ?thesis
    proof (cases "trim (apiKey s) = ''''")
      case True
      with Some targets show ?thesis
        using handleSubmit_no_key [of s f eng w fetch]
        by (simp add: run_simps navigateTo_def)
    next
      case key: False
      from assms Some targets key have "failed_outcome (fetch (payload f s))"
        by auto
      then obtain e where "handleResponse eng (fetch (payload f s)) = Inl e"
        using handleResponse_failed by blast
      then show ?thesis
        using handleSubmit_request [OF Some targets key, of eng w fetch]
        by (simp add: run_simps)
    qed
  qed
qed

theorem failed_submit_keeps_results_witness:
  "evaluations (run (example_app\<lparr>evaluations := JArr [JNull], activeTab := 5\<rparr>)
     (handleSubmit example_engine example_browser
        (\<lambda>d. Response False (Inr (JObj [(''detail'', JStr ''Invalid API key'')])))
        (example_app\<lparr>evaluations := JArr [JNull], activeTab := 5\<rparr>)))
     = JArr [JNull]
   \<and> activeTab (run (initial_app\<lparr>activeTab := 3\<rparr>)
       (handleSubmit example_engine example_browser (\<lambda>d. Rejected (Error ''offline''))
          (initial_app\<lparr>activeTab := 3\<rparr>))) = 3"
  using failed_submit_keeps_results
    [of "example_app\<lparr>evaluations := JArr [JNull], activeTab := 5\<rparr>"
        "\<lambda>d. Response False (Inr (JObj [(''detail'', JStr ''Invalid API key'')]))"
        example_engine example_browser]
    failed_submit_keeps_results
    [of "initial_app\<lparr>activeTab := 3\<rparr>" "\<lambda>d. Rejected (Error ''offline'')"
        example_engine example_browser]
  by (simp add: example_app_def initial_app_def failed_outcome_def)

section \<open>Properties of binary64 rounding\<close>

lemma rne_of_int: "rne (of_int k) = k"
  by (simp add: rne_def)

lemma rne_bounds: "\<lfloor>a\<rfloor> \<le> rne a \<and> rne a \<le> \<lfloor>a\<rfloor> + 1"
  by (simp add: rne_def Let_def)

lemma rne_mono:
  assumes "a \<le> b"
  shows "rne a \<le> rne b"
proof (cases "\<lfloor>a\<rfloor> = \<lfloor>b\<rfloor>")
  case True
  with assms have "a - of_int \<lfloor>a\<rfloor> \<le> b - of_int \<lfloor>b\<rfloor>" by simp
  with True show ?thesis
    by (auto simp add: rne_def Let_def)
next
  case False
  with assms have "\<lfloor>a\<rfloor> < \<lfloor>b\<rfloor>"
    using floor_mono [of a b] by linarith
  then have "\<lfloor>a\<rfloor> + 1 \<le> \<lfloor>b\<rfloor>" by simp
  with rne_bounds [of a] rne_bounds [of b] show ?thesis by linarith
qed

lemma ilog2_bounds:
  assumes "0 < x"
  shows "2 powi ilog2 x \<le> x \<and> x < 2 powi (ilog2 x + 1)"
proof -
  obtain p q where pq: "quotient_of x = (p, q)" by (cases "quotient_of x")
  then have q: "0 < q" and x: "x = of_int p / of_int q"
    using quotient_of_denom_pos [of x p q] quotient_of_div [of x p q] by simp_all
  with assms have p: "0 < p"
    by (simp add: zero_less_divide_iff)
  define bp where "bp = bitlen p"
  define bq where "bq = bitlen q"
  have bp1: "1 \<le> bp" and bq1: "1 \<le> bq"
    using p q by (simp_all add: bp_def bq_def bitlen_alt_def)
  have pl: "(2::rat) powi (bp - 1) \<le> of_int p" and pu: "of_int p < (2::rat) powi bp"
  proof -
    have "2 ^ nat (bp - 1) \<le> p" "p < 2 ^ nat bp"
      using bitlen_bounds [OF p] by (simp_all add: bp_def)
    then have "(of_int (2 ^ nat (bp - 1)) :: rat) \<le> of_int p" "(of_int p :: rat) < of_int (2 ^ nat bp)"
      by (simp_all only: of_int_le_iff of_int_less_iff)
    then show "(2::rat) powi (bp - 1) \<le> of_int p" "of_int p < (2::rat) powi bp"
      using bp1 by (simp_all add: power_int_nonneg_exp)
  qed
  have ql: "(2::rat) powi (bq - 1) \<le> of_int q" and qu: "of_int q < (2::rat) powi bq"
  proof -
    have "2 ^ nat (bq - 1) \<le> q" "q < 2 ^ nat bq"
      using bitlen_bounds [OF q] by (simp_all add: bq_def)
    then have "(of_int (2 ^ nat (bq - 1)) :: rat) \<le> of_int q" "(of_int q :: rat) < of_int (2 ^ nat bq)"
      by (simp_all only: of_int_le_iff of_int_less_iff)
    then show "(2::rat) powi (bq - 1) \<le> of_int q" "of_int q < (2::rat) powi bq"
      using bq1 by (simp_all add: power_int_nonneg_exp)
  qed
  have qpos: "(0::rat) < of_int q" using q by simp
  have upper: "x < 2 powi (bp - bq + 1)"
  proof -
    have "of_int p < (2::rat) powi bp" by (rule pu)
    also have "\<dots> = 2 powi (bp - bq + 1) * 2 powi (bq - 1)"
      by (simp add: power_int_add [symmetric])
    also have "\<dots> \<le> 2 powi (bp - bq + 1) * of_int q"
      using ql by (simp add: mult_left_mono)
    finally show ?thesis
      using qpos by (simp add: x pos_divide_less_eq)
  qed
  have lower: "2 powi (bp - bq - 1) < x"
  proof -
    have "2 powi (bp - bq - 1) * of_int q < (2::rat) powi (bp - bq - 1) * 2 powi bq"
      using qu by (simp add: mult_strict_left_mono)
    also have "\<dots> = 2 powi (bp - 1)"
      by (simp add: power_int_add [symmetric])
    also have "\<dots> \<le> of_int p" by (rule pl)
    finally show ?thesis
      using qpos by (simp add: x pos_less_divide_eq)
  qed
  have k: "ilog2 x = (if 2 powi (bp - bq) \<le> x then bp - bq else bp - bq - 1)"
    by (simp add: ilog2_def pq bp_def bq_def Let_def)
  show ?thesis
  proof (cases "2 powi (bp - bq) \<le> x")
    case True
    with k upper show ?thesis by simp
  next
    case False
    with k lower show ?thesis by (simp add: less_imp_le)
  qed
qed

lemma powi_less_imp: "(2::rat) powi a < 2 powi b \<Longrightarrow> a < b"
  by (rule ccontr) (simp add: not_less power_int_increasing not_le [symmetric])

lemma ilog2_unique:
  assumes "2 powi k \<le> x" and "x < 2 powi (k + 1)"
  shows "ilog2 x = k"
proof -
  have "(0::rat) < 2 powi k" by (simp add: zero_less_power_int)
  from this assms(1) have pos: "0 < x" by (rule less_le_trans)
  from ilog2_bounds [OF pos] assms have a: "(2::rat) powi ilog2 x < 2 powi (k + 1)"
    and b: "(2::rat) powi k < 2 powi (ilog2 x + 1)"
    by simp_all
  have "ilog2 x < k + 1" using a by (rule powi_less_imp)
  moreover have "k < ilog2 x + 1" using b by (rule powi_less_imp)
  ultimately show ?thesis by simp
qed

lemma ilog2_mono:
  assumes "0 < x" and "x \<le> y"
  shows "ilog2 x \<le> ilog2 y"
proof -
  from assms have "0 < y" by simp
  from ilog2_bounds [OF assms(1)] ilog2_bounds [OF this] assms(2)
  have "(2::rat) powi ilog2 x < 2 powi (ilog2 y + 1)" by simp
  then have "ilog2 x < ilog2 y + 1" by (rule powi_less_imp)
  then show ?thesis by simp
qed

lemma powi_pos: "(0::rat) < 2 powi k"
  by (simp add: zero_less_power_int)

lemma rne_nonneg: "0 \<le> a \<Longrightarrow> 0 \<le> rne a"
proof -
  assume "0 \<le> a"
  then have "0 \<le> \<lfloor>a\<rfloor>" by simp
  with rne_bounds [of a] show ?thesis by linarith
qed

lemma round_pos_nonneg:
  assumes "0 < x"
  shows "0 \<le> round_pos x"
proof -
  have "0 \<le> x / 2 powi ulp_exp x"
    using assms powi_pos [of "ulp_exp x"] by simp
  then have "0 \<le> rne (x / 2 powi ulp_exp x)"
    by (rule rne_nonneg)
  then show ?thesis
    using powi_pos [of "ulp_exp x"] by (simp add: round_pos_def)
qed

lemma round_pos_upper:
  assumes "0 < x"
  shows "round_pos x \<le> 2 powi (ulp_exp x + 53)"
proof -
  let ?e = "ulp_exp x"
  have E: "(0::rat) \<le> 2 powi ?e" using powi_pos [of ?e] by simp
  have "ilog2 x + 1 \<le> ?e + 53" by (simp add: ulp_exp_def)
  then have "(2::rat) powi (ilog2 x + 1) \<le> 2 powi (?e + 53)"
    by (intro power_int_increasing) simp_all
  with ilog2_bounds [OF assms] have "x \<le> 2 powi (?e + 53)"
    by simp
  then have "x \<le> of_int (2 ^ 53) * 2 powi ?e"
    by (simp add: power_int_add)
  then have "x / 2 powi ?e \<le> of_int (2 ^ 53)"
    using powi_pos [of ?e] by (simp only: pos_divide_le_eq)
  then have "rne (x / 2 powi ?e) \<le> rne (of_int (2 ^ 53))"
    by (rule rne_mono)
  then have "rne (x / 2 powi ?e) \<le> 2 ^ 53"
    by (simp only: rne_of_int)
  then have "(of_int (rne (x / 2 powi ?e)) :: rat) \<le> of_int (2 ^ 53)"
    by (simp only: of_int_le_iff)
  then have "of_int (rne (x / 2 powi ?e)) * 2 powi ?e \<le> (of_int (2 ^ 53) :: rat) * 2 powi ?e"
    using E by (rule mult_right_mono)
  also have "(of_int (2 ^ 53) :: rat) * 2 powi ?e = 2 powi (?e + 53)"
    by (simp add: power_int_add)
  finally show ?thesis
    by (simp only: round_pos_def)
qed

lemma round_pos_lower:
  assumes "0 < x" and "- 1074 < ulp_exp x"
  shows "2 powi (ulp_exp x + 52) \<le> round_pos x"
proof -
  let ?e = "ulp_exp x"
  have E: "(0::rat) \<le> 2 powi ?e" using powi_pos [of ?e] by simp
  from assms(2) have "?e + 52 = ilog2 x" by (simp add: ulp_exp_def max_def split: if_splits)
  with ilog2_bounds [OF assms(1)] have "2 powi (?e + 52) \<le> x"
    by simp
  then have "of_int (2 ^ 52) * 2 powi ?e \<le> x"
    by (simp add: power_int_add)
  then have "of_int (2 ^ 52) \<le> x / 2 powi ?e"
    using powi_pos [of ?e] by (simp only: pos_le_divide_eq)
  then have "rne (of_int (2 ^ 52)) \<le> rne (x / 2 powi ?e)"
    by (rule rne_mono)
  then have "2 ^ 52 \<le> rne (x / 2 powi ?e)"
    by (simp only: rne_of_int)
  then have "(of_int (2 ^ 52) :: rat) \<le> of_int (rne (x / 2 powi ?e))"
    by (simp only: of_int_le_iff)
  then have "(of_int (2 ^ 52) :: rat) * 2 powi ?e \<le> of_int (rne (x / 2 powi ?e)) * 2 powi ?e"
    using E by (rule mult_right_mono)
  moreover have "(of_int (2 ^ 52) :: rat) * 2 powi ?e = 2 powi (?e + 52)"
    by (simp add: power_int_add)
  ultimately show ?thesis
    by (simp only: round_pos_def)
qed

lemma ulp_exp_mono:
  assumes "0 < x" and "x \<le> y"
  shows "ulp_exp x \<le> ulp_exp y"
  using ilog2_mono [OF assms] by (simp add: ulp_exp_def)

lemma round_pos_mono:
  assumes "0 < x" and "x \<le> y"
  shows "round_pos x \<le> round_pos y"
proof (cases "ulp_exp x = ulp_exp y")
  case True
  have "x / 2 powi ulp_exp y \<le> y / 2 powi ulp_exp y"
    using assms(2) powi_pos [of "ulp_exp y"] by (simp add: divide_right_mono)
  then have "rne (x / 2 powi ulp_exp y) \<le> rne (y / 2 powi ulp_exp y)"
    by (rule rne_mono)
  then have "(of_int (rne (x / 2 powi ulp_exp y)) :: rat) \<le> of_int (rne (y / 2 powi ulp_exp y))"
    by (simp only: of_int_le_iff)
  then show ?thesis
    using powi_pos [of "ulp_exp y"] by (simp add: round_pos_def True mult_right_mono)
next
  case False
  with ulp_exp_mono [OF assms] have less: "ulp_exp x < ulp_exp y" by simp
  from assms have y: "0 < y" by simp
  have "- 1074 \<le> ulp_exp x" by (simp add: ulp_exp_def)
  with less have "- 1074 < ulp_exp y" by simp
  from round_pos_lower [OF y this] have "2 powi (ulp_exp y + 52) \<le> round_pos y" .
  moreover have "(2::rat) powi (ulp_exp x + 53) \<le> 2 powi (ulp_exp y + 52)"
    using less by (intro power_int_increasing) simp_all
  ultimately show ?thesis
    using round_pos_upper [OF assms(1)] by simp
qed

lemma round_pos_normal:
  assumes "2 powi (e + 52) \<le> x" and "x < 2 powi (e + 53)" and "- 1074 \<le> e"
  shows "round_pos x = of_int (rne (x / 2 powi e)) * 2 powi e"
proof -
  have "ilog2 x = e + 52"
    using assms(1,2) by (intro ilog2_unique) (simp_all add: add.commute add.left_commute)
  with assms(3) have "ulp_exp x = e" by (simp add: ulp_exp_def)
  then show ?thesis by (simp add: round_pos_def)
qed

lemma rne_nearest:
  assumes "\<bar>a - of_int n\<bar> < 1 / 2"
  shows "rne a = n"
proof (cases "of_int n \<le> a")
  case True
  with assms have "\<lfloor>a\<rfloor> = n"
    by (intro floor_unique) (simp_all add: abs_less_iff)
  with assms True show ?thesis
    by (simp add: rne_def abs_less_iff)
next
  case False
  with assms have "\<lfloor>a\<rfloor> = n - 1"
    by (intro floor_unique) (simp_all add: abs_less_iff)
  with assms False show ?thesis
    by (simp add: rne_def abs_less_iff)
qed

lemma round_pos_value:
  assumes "2 powi (e + 52) \<le> x" and "x < 2 powi (e + 53)" and "- 1074 \<le> e"
    and "\<bar>x / 2 powi e - of_int n\<bar> < 1 / 2"
  shows "round_pos x = of_int n * 2 powi e"
  using round_pos_normal [OF assms(1-3)] rne_nearest [OF assms(4)] by simp

lemma round_four_fifths: "round_pos (4 / 5) = 3602879701896397 / 4503599627370496"
  using round_pos_value [of "- 53" "4 / 5" 7205759403792794]
  by simp

lemma round_eighty: "round_pos (3602879701896397 / 4503599627370496 * 100) = 80"
  using round_pos_value [of "- 46" "3602879701896397 / 4503599627370496 * 100" 5629499534213120]
  by simp

lemma round_three_fifths: "round_pos (3 / 5) = 5404319552844595 / 9007199254740992"
  using round_pos_value [of "- 53" "3 / 5" 5404319552844595]
  by simp

lemma round_sixty: "round_pos (5404319552844595 / 9007199254740992 * 100) = 60"
  using round_pos_value [of "- 47" "5404319552844595 / 9007199254740992 * 100" 8444249301319680]
  by simp

lemma round_two_fifths: "round_pos (2 / 5) = 3602879701896397 / 9007199254740992"
  using round_pos_value [of "- 54" "2 / 5" 7205759403792794]
  by simp

lemma round_forty: "round_pos (3602879701896397 / 9007199254740992 * 100) = 40"
  using round_pos_value [of "- 47" "3602879701896397 / 9007199254740992 * 100" 5629499534213120]
  by simp

lemma round_below_four_fifths: "round_pos ((80 - 1 / 10 ^ 13) / 100) = 7205759403792785 / 9007199254740992"
  using round_pos_value [of "- 53" "(80 - 1 / 10 ^ 13) / 100" 7205759403792785]
  by simp

lemma round_below_eighty: "round_pos (7205759403792785 / 9007199254740992 * 100) = 5629499534213113 / 70368744177664"
  using round_pos_value [of "- 46" "7205759403792785 / 9007199254740992 * 100" 5629499534213113]
  by simp

lemma round_below_three_fifths: "round_pos ((60 - 1 / 10 ^ 13) / 100) = 2702159776422293 / 4503599627370496"
  using round_pos_value [of "- 53" "(60 - 1 / 10 ^ 13) / 100" 5404319552844586]
  by simp

lemma round_below_sixty: "round_pos (2702159776422293 / 4503599627370496 * 100) = 4222124650659833 / 70368744177664"
  using round_pos_value [of "- 47" "2702159776422293 / 4503599627370496 * 100" 8444249301319666]
  by simp

lemma round_below_two_fifths: "round_pos ((40 - 1 / 10 ^ 13) / 100) = 900719925474097 / 2251799813685248"
  using round_pos_value [of "- 54" "(40 - 1 / 10 ^ 13) / 100" 7205759403792776]
  by simp

lemma round_below_forty: "round_pos (900719925474097 / 2251799813685248 * 100) = 2814749767106553 / 70368744177664"
  using round_pos_value [of "- 47" "900719925474097 / 2251799813685248 * 100" 5629499534213106]
  by simp

lemma round_near_three_fifths: "round_pos (8444249301319679 / 140737488355328 / 100) = 5404319552844595 / 9007199254740992"
  using round_pos_value [of "- 53" "8444249301319679 / 140737488355328 / 100" 5404319552844595]
  by simp

lemma round64_pos:
  assumes "0 < x"
  shows "round64 x = (if overflow_bound \<le> round_pos x then PInf else Fin (round_pos x))"
  using assms by (simp add: round64_def)

lemma overflow_bound_large: "100 \<le> overflow_bound"
proof -
  have "(2::rat) ^ 7 \<le> 2 ^ 1024" by (rule power_increasing) simp_all
  then show ?thesis by (simp add: overflow_bound_def)
qed

lemma round64_neg_cases:
  assumes "x < 0"
  shows "round64 x = NInf \<or> round64 x = NegZero
       \<or> (round64 x = Fin (- round_pos (- x)) \<and> 0 < round_pos (- x))"
proof -
  from assms have "0 < - x" by simp
  then have "0 \<le> round_pos (- x)" by (rule round_pos_nonneg)
  then have "round_pos (- x) = 0 \<or> 0 < round_pos (- x)" by linarith
  with assms show ?thesis
    by (auto simp add: round64_def)
qed

lemma round64_neg_not_ge:
  assumes "x < 0" and "0 < t"
  shows "\<not> js_ge (round64 x) (Fin t)"
  using round64_neg_cases [OF assms(1)] assms(2)
  by (auto simp add: js_ge_def)

lemma round64_neg_times_not_ge:
  assumes "x < 0" and "0 < t"
  shows "\<not> js_ge (js_mul (round64 x) (Fin 100)) (Fin t)"
proof -
  from round64_neg_cases [OF assms(1)]
  consider (inf) "round64 x = NInf" | (zero) "round64 x = NegZero"
    | (fin) "round64 x = Fin (- round_pos (- x))" "0 < round_pos (- x)"
    by blast
  then show ?thesis
  proof cases
    case inf
    then show ?thesis by (simp add: js_mul_def inf_of_def js_ge_def)
  next
    case zero
    with assms(2) show ?thesis by (simp add: js_mul_def zero_of_def js_ge_def)
  next
    case fin
    from fin(2) have "- round_pos (- x) * 100 < 0" by simp
    then have "\<not> js_ge (round64 (- round_pos (- x) * 100)) (Fin t)"
      using assms(2) by (rule round64_neg_not_ge)
    with fin show ?thesis by (simp add: js_mul_def)
  qed
qed

lemma percentage_lower:
  assumes "0 < m" and "0 < c" and "c \<le> s / m"
    and "0 < round_pos c" and "t \<le> round_pos (round_pos c * 100)"
  shows "js_ge (js_mul (js_div (Fin s) (Fin m)) (Fin 100)) (Fin t)"
proof -
  from assms(2,3) have q: "0 < s / m" by simp
  with assms(1) have s: "s \<noteq> 0" by auto
  have d: "js_div (Fin s) (Fin m) = round64 (s / m)"
    using s assms(1) by (simp add: js_div_def)
  let ?r = "round_pos (s / m)"
  have r: "round_pos c \<le> ?r" using assms(2,3) by (rule round_pos_mono)
  show ?thesis
  proof (cases "overflow_bound \<le> ?r")
    case True
    with q d show ?thesis
      by (simp add: round64_pos js_mul_def inf_of_def js_ge_def)
  next
    case False
    from assms(4) r have rpos: "0 < ?r" by simp
    from False q d have d': "js_div (Fin s) (Fin m) = Fin ?r"
      by (simp add: round64_pos)
    have m': "js_mul (Fin ?r) (Fin 100) = round64 (?r * 100)"
      using rpos by (simp add: js_mul_def)
    have "round_pos (round_pos c * 100) \<le> round_pos (?r * 100)"
      using assms(4) r by (intro round_pos_mono) simp_all
    with assms(5) have "t \<le> round_pos (?r * 100)" by simp
    moreover have "0 < ?r * 100" using rpos by simp
    ultimately have "js_ge (round64 (?r * 100)) (Fin t)"
      by (simp add: round64_pos js_ge_def)
    with d' m' show ?thesis by simp
  qed
qed

lemma percentage_upper:
  assumes "0 < m" and "s / m \<le> c" and "0 < t" and "t \<le> overflow_bound"
    and "round_pos c < overflow_bound" and "round_pos (round_pos c * 100) < t"
  shows "\<not> js_ge (js_mul (js_div (Fin s) (Fin m)) (Fin 100)) (Fin t)"
proof -
  consider (zero) "s = 0" | (neg) "s < 0" | (pos) "0 < s" by linarith
  then show ?thesis
  proof cases
    case zero
    with assms(1,3) show ?thesis
      by (simp add: js_div_def js_mul_def zero_of_def js_ge_def)
  next
    case neg
    with assms(1) have "s / m < 0" by (simp add: divide_neg_pos)
    moreover have "js_div (Fin s) (Fin m) = round64 (s / m)"
      using neg assms(1) by (simp add: js_div_def)
    ultimately show ?thesis
      using round64_neg_times_not_ge [OF _ assms(3)] by simp
  next
    case pos
    with assms(1) have q: "0 < s / m" by simp
    let ?r = "round_pos (s / m)"
    have r: "?r \<le> round_pos c" using q assms(2) by (rule round_pos_mono)
    with assms(5) have small: "\<not> overflow_bound \<le> ?r" by simp
    have d: "js_div (Fin s) (Fin m) = Fin ?r"
      using pos assms(1) q small by (simp add: js_div_def round64_pos)
    have r0: "0 \<le> ?r" using q by (rule round_pos_nonneg)
    show ?thesis
    proof (cases "?r = 0")
      case True
      with d assms(3) show ?thesis
        by (simp add: js_mul_def zero_of_def js_ge_def)
    next
      case False
      with r0 have rpos: "0 < ?r" by simp
      have m': "js_mul (Fin ?r) (Fin 100) = round64 (?r * 100)"
        using rpos by (simp add: js_mul_def)
      have "round_pos (?r * 100) \<le> round_pos (round_pos c * 100)"
        using rpos r by (intro round_pos_mono) simp_all
      with assms(6) have lt: "round_pos (?r * 100) < t" by simp
      with assms(4) have "\<not> overflow_bound \<le> round_pos (?r * 100)" by simp
      moreover have "0 < ?r * 100" using rpos by simp
      ultimately have "round64 (?r * 100) = Fin (round_pos (?r * 100))"
        by (simp add: round64_pos)
      with lt d m' show ?thesis by (simp add: js_ge_def)
    qed
  qed
qed

section \<open>Properties of the renderer\<close>

lemma percentage_ge_80:
  assumes "0 < m" and "80 \<le> 100 * s / m"
  shows "js_ge (js_mul (js_div (Fin s) (Fin m)) (Fin 100)) (Fin 80)"
proof -
  from assms have q: "4 / 5 \<le> s / m" by simp
  have c: "(0::rat) < 4 / 5" by simp
  have r: "0 < round_pos (4 / 5)"
    unfolding round_four_fifths by simp
  have t: "80 \<le> round_pos (round_pos (4 / 5) * 100)"
    unfolding round_four_fifths round_eighty by simp
  show ?thesis
    using assms(1) c q r t by (rule percentage_lower)
qed

lemma percentage_ge_60:
  assumes "0 < m" and "60 \<le> 100 * s / m"
  shows "js_ge (js_mul (js_div (Fin s) (Fin m)) (Fin 100)) (Fin 60)"
proof -
  from assms have q: "3 / 5 \<le> s / m" by simp
  have c: "(0::rat) < 3 / 5" by simp
  have r: "0 < round_pos (3 / 5)"
    unfolding round_three_fifths by simp
  have t: "60 \<le> round_pos (round_pos (3 / 5) * 100)"
    unfolding round_three_fifths round_sixty by simp
  show ?thesis
    using assms(1) c q r t by (rule percentage_lower)
qed

lemma percentage_ge_40:
  assumes "0 < m" and "40 \<le> 100 * s / m"
  shows "js_ge (js_mul (js_div (Fin s) (Fin m)) (Fin 100)) (Fin 40)"
proof -
  from assms have q: "2 / 5 \<le> s / m" by simp
  have c: "(0::rat) < 2 / 5" by simp
  have r: "0 < round_pos (2 / 5)"
    unfolding round_two_fifths by simp
  have t: "40 \<le> round_pos (round_pos (2 / 5) * 100)"
    unfolding round_two_fifths round_forty by simp
  show ?thesis
    using assms(1) c q r t by (rule percentage_lower)
qed

lemma percentage_less_80:
  assumes "0 < m" and "100 * s / m \<le> 80 - 1 / 10 ^ 13"
  shows "\<not> js_ge (js_mul (js_div (Fin s) (Fin m)) (Fin 100)) (Fin 80)"
proof -
  from assms(2) have q: "s / m \<le> (80 - 1 / 10 ^ 13) / 100"
    by (simp add: mult.commute)
  have t: "(0::rat) < 80" by simp
  have b: "(80::rat) \<le> overflow_bound"
    using overflow_bound_large by simp
  have r: "round_pos ((80 - 1 / 10 ^ 13) / 100) < overflow_bound"
    unfolding round_below_four_fifths using overflow_bound_large by simp
  have u: "round_pos (round_pos ((80 - 1 / 10 ^ 13) / 100) * 100) < 80"
    unfolding round_below_four_fifths round_below_eighty by simp
  show ?thesis
    using assms(1) q t b r u by (rule percentage_upper)
qed

lemma percentage_less_60:
  assumes "0 < m" and "100 * s / m \<le> 60 - 1 / 10 ^ 13"
  shows "\<not> js_ge (js_mul (js_div (Fin s) (Fin m)) (Fin 100)) (Fin 60)"
proof -
  from assms(2) have q: "s / m \<le> (60 - 1 / 10 ^ 13) / 100"
    by (simp add: mult.commute)
  have t: "(0::rat) < 60" by simp
  have b: "(60::rat) \<le> overflow_bound"
    using overflow_bound_large by simp
  have r: "round_pos ((60 - 1 / 10 ^ 13) / 100) < overflow_bound"
    unfolding round_below_three_fifths using overflow_bound_large by simp
  have u: "round_pos (round_pos ((60 - 1 / 10 ^ 13) / 100) * 100) < 60"
    unfolding round_below_three_fifths round_below_sixty by simp
  show ?thesis
    using assms(1) q t b r u by (rule percentage_upper)
qed

lemma percentage_less_40:
  assumes "0 < m" and "100 * s / m \<le> 40 - 1 / 10 ^ 13"
  shows "\<not> js_ge (js_mul (js_div (Fin s) (Fin m)) (Fin 100)) (Fin 40)"
proof -
  from assms(2) have q: "s / m \<le> (40 - 1 / 10 ^ 13) / 100"
    by (simp add: mult.commute)
  have t: "(0::rat) < 40" by simp
  have b: "(40::rat) \<le> overflow_bound"
    using overflow_bound_large by simp
  have r: "round_pos ((40 - 1 / 10 ^ 13) / 100) < overflow_bound"
    unfolding round_below_two_fifths using overflow_bound_large by simp
  have u: "round_pos (round_pos ((40 - 1 / 10 ^ 13) / 100) * 100) < 40"
    unfolding round_below_two_fifths round_below_forty by simp
  show ?thesis
    using assms(1) q t b r u by (rule percentage_upper)
qed

text \<open>
  The claim as written fails at a score just below a threshold. The binary64 value
  59.99999999999999 is below 60, so its percentage of 100 is below 60; the code
  divides it by 100, which rounds to the binary64 value nearest to 0.6, and the
  product of that with 100 rounds to 60: the label is \<open>Good\<close>, not \<open>Average\<close>.
\<close>

theorem getScoreLabel_rounding_counterexample:
  "getScoreLabel (Fin (8444249301319679 / 140737488355328)) (Fin 100) = ''Good''
   \<and> 100 * (8444249301319679 / 140737488355328) / 100 < (60 :: rat)"
proof -
  have r: "0 < round_pos (8444249301319679 / 140737488355328 / 100)"
    unfolding round_near_three_fifths by simp
  have t: "60 \<le> round_pos (round_pos (8444249301319679 / 140737488355328 / 100) * 100)"
    unfolding round_near_three_fifths round_sixty by simp
  have "js_ge (js_mul (js_div (Fin (8444249301319679 / 140737488355328)) (Fin 100)) (Fin 100))
          (Fin 60)"
    using _ _ _ r t by (rule percentage_lower) simp_all
  moreover have "\<not> js_ge
      (js_mul (js_div (Fin (8444249301319679 / 140737488355328)) (Fin 100)) (Fin 100)) (Fin 80)"
    by (rule percentage_less_80) simp_all
  ultimately show ?thesis
    by (simp add: getScoreLabel_def)
qed

text \<open>
  Claim C8, as amended. For every score \<open>s\<close> and every maximum \<open>m > 0\<close>, the label
  and the colour class are the band of the percentage as the code computes it in
  binary64 arithmetic (the quotient rounded, then its product with 100 rounded),
  with the same thresholds 80, 60 and 40 for the overall score and for every
  sub-score. Against the exact percentage \<open>100 * s / m\<close> the lower end of each band
  is exact and the upper end holds up to rounding: at least 80 gives \<open>Excellent\<close>;
  from 60 up to 80 gives \<open>Good\<close>, or \<open>Excellent\<close> within \<open>1 / 10 ^ 13\<close> below 80; from
  40 up to 60 gives \<open>Average\<close>, or \<open>Good\<close> within \<open>1 / 10 ^ 13\<close> below 60; below 40
  gives \<open>Poor\<close>, or \<open>Average\<close> within \<open>1 / 10 ^ 13\<close> below 40. An overall score of 85
  out of 100 and an experience score of 35 out of 40 are both \<open>Excellent\<close>.
\<close>

theorem getScoreLabel_bands:
  assumes "0 < m"
  shows "(80 \<le> 100 * s / m \<longrightarrow>
            getScoreLabel (Fin s) (Fin m) = ''Excellent''
            \<and> getScoreColor (Fin s) (Fin m) = ''score-excellent'')
       \<and> (60 \<le> 100 * s / m \<and> 100 * s / m \<le> 80 - 1 / 10 ^ 13 \<longrightarrow>
            getScoreLabel (Fin s) (Fin m) = ''Good''
            \<and> getScoreColor (Fin s) (Fin m) = ''score-good'')
       \<and> (40 \<le> 100 * s / m \<and> 100 * s / m \<le> 60 - 1 / 10 ^ 13 \<longrightarrow>
            getScoreLabel (Fin s) (Fin m) = ''Average''
            \<and> getScoreColor (Fin s) (Fin m) = ''score-average'')
       \<and> (100 * s / m \<le> 40 - 1 / 10 ^ 13 \<longrightarrow>
            getScoreLabel (Fin s) (Fin m) = ''Poor''
            \<and> getScoreColor (Fin s) (Fin m) = ''score-poor'')
       \<and> (60 \<le> 100 * s / m \<and> 100 * s / m < 80 \<longrightarrow>
            getScoreLabel (Fin s) (Fin m) = ''Good''
            \<or> getScoreLabel (Fin s) (Fin m) = ''Excellent'')
       \<and> (40 \<le> 100 * s / m \<and> 100 * s / m < 60 \<longrightarrow>
            getScoreLabel (Fin s) (Fin m) = ''Average''
            \<or> getScoreLabel (Fin s) (Fin m) = ''Good'')
       \<and> (100 * s / m < 40 \<longrightarrow>
            getScoreLabel (Fin s) (Fin m) = ''Poor''
            \<or> getScoreLabel (Fin s) (Fin m) = ''Average'')
       \<and> getScoreLabel (Fin 85) (Fin 100) = ''Excellent''
       \<and> getScoreLabel (Fin 35) (Fin 40) = ''Excellent''"
proof -
  let ?p = "js_mul (js_div (Fin s) (Fin m)) (Fin 100)"
  note ge = percentage_ge_80 [OF assms, of s] percentage_ge_60 [OF assms, of s]
    percentage_ge_40 [OF assms, of s]
  note less = percentage_less_80 [OF assms, of s] percentage_less_60 [OF assms, of s]
    percentage_less_40 [OF assms, of s]
  have excellent: "80 \<le> 100 * s / m \<longrightarrow>
      getScoreLabel (Fin s) (Fin m) = ''Excellent''
      \<and> getScoreColor (Fin s) (Fin m) = ''score-excellent''"
    using ge(1) by (simp add: getScoreLabel_def getScoreColor_def)
  have good: "60 \<le> 100 * s / m \<and> 100 * s / m \<le> 80 - 1 / 10 ^ 13 \<longrightarrow>
      getScoreLabel (Fin s) (Fin m) = ''Good''
      \<and> getScoreColor (Fin s) (Fin m) = ''score-good''"
    using ge(2) less(1) by (simp add: getScoreLabel_def getScoreColor_def)
  have average: "40 \<le> 100 * s / m \<and> 100 * s / m \<le> 60 - 1 / 10 ^ 13 \<longrightarrow>
      getScoreLabel (Fin s) (Fin m) = ''Average''
      \<and> getScoreColor (Fin s) (Fin m) = ''score-average''"
  proof
    assume a: "40 \<le> 100 * s / m \<and> 100 * s / m \<le> 60 - 1 / 10 ^ 13"
    then have "100 * s / m \<le> 80 - 1 / 10 ^ 13" by simp
    with a ge(3) less(1,2) show "getScoreLabel (Fin s) (Fin m) = ''Average''
        \<and> getScoreColor (Fin s) (Fin m) = ''score-average''"
      by (simp add: getScoreLabel_def getScoreColor_def)
  qed
  have poor: "100 * s / m \<le> 40 - 1 / 10 ^ 13 \<longrightarrow>
      getScoreLabel (Fin s) (Fin m) = ''Poor''
      \<and> getScoreColor (Fin s) (Fin m) = ''score-poor''"
  proof
    assume a: "100 * s / m \<le> 40 - 1 / 10 ^ 13"
    then have "100 * s / m \<le> 60 - 1 / 10 ^ 13" "100 * s / m \<le> 80 - 1 / 10 ^ 13"
      by simp_all
    with a less show "getScoreLabel (Fin s) (Fin m) = ''Poor''
        \<and> getScoreColor (Fin s) (Fin m) = ''score-poor''"
      by (simp add: getScoreLabel_def getScoreColor_def)
  qed
  have near80: "60 \<le> 100 * s / m \<and> 100 * s / m < 80 \<longrightarrow>
      getScoreLabel (Fin s) (Fin m) = ''Good'' \<or> getScoreLabel (Fin s) (Fin m) = ''Excellent''"
    using ge(2) by (auto simp add: getScoreLabel_def Let_def)
  have near60: "40 \<le> 100 * s / m \<and> 100 * s / m < 60 \<longrightarrow>
      getScoreLabel (Fin s) (Fin m) = ''Average'' \<or> getScoreLabel (Fin s) (Fin m) = ''Good''"
  proof
    assume a: "40 \<le> 100 * s / m \<and> 100 * s / m < 60"
    then have "100 * s / m \<le> 80 - 1 / 10 ^ 13" by simp
    with a ge(3) less(1) show "getScoreLabel (Fin s) (Fin m) = ''Average''
        \<or> getScoreLabel (Fin s) (Fin m) = ''Good''"
      by (auto simp add: getScoreLabel_def Let_def)
  qed
  have near40: "100 * s / m < 40 \<longrightarrow>
      getScoreLabel (Fin s) (Fin m) = ''Poor'' \<or> getScoreLabel (Fin s) (Fin m) = ''Average''"
  proof
    assume a: "100 * s / m < 40"
    then have "100 * s / m \<le> 60 - 1 / 10 ^ 13" "100 * s / m \<le> 80 - 1 / 10 ^ 13"
      by simp_all
    with less(1,2) show "getScoreLabel (Fin s) (Fin m) = ''Poor''
        \<or> getScoreLabel (Fin s) (Fin m) = ''Average''"
      by (auto simp add: getScoreLabel_def Let_def)
  qed
  have ex1: "getScoreLabel (Fin 85) (Fin 100) = ''Excellent''"
    using percentage_ge_80 [of 100 85] by (simp add: getScoreLabel_def)
  have ex2: "getScoreLabel (Fin 35) (Fin 40) = ''Excellent''"
    using percentage_ge_80 [of 40 35] by (simp add: getScoreLabel_def)
  from excellent good average poor near80 near60 near40 ex1 ex2 show ?thesis
    by blast
qed

theorem getScoreLabel_bands_witness:
  "getScoreLabel (Fin 18) (Fin 20) = ''Excellent''
   \<and> getScoreLabel (Fin 24) (Fin 40) = ''Good''
   \<and> getScoreLabel (Fin 59) (Fin 100) = ''Average''
   \<and> getScoreColor (Fin 7) (Fin 20) = ''score-poor''"
  using getScoreLabel_bands [of 20 18] getScoreLabel_bands [of 40 24]
    getScoreLabel_bands [of 100 59] getScoreLabel_bands [of 20 7]
  by simp

lemma map_err_length:
  "map_err f xs = Inr ys \<Longrightarrow> length ys = length xs"
proof (induction xs arbitrary: ys)
  case Nil
  then show ?case by simp
next
  case (Cons x xs)
  from Cons.prems obtain y where y: "f x = Inr y"
    by (cases "f x") simp_all
  with Cons.prems obtain zs where zs: "map_err f xs = Inr zs"
    by (cases "map_err f xs") simp_all
  with y Cons.prems have "ys = y # zs" by simp
  with Cons.IH [OF zs] show ?case by simp
qed

lemma scoreData_parse_failure:
  assumes "map_of kvs ''score_and_explanation'' = Some (JStr raw)"
    and "JSON_parse eng (trim (strip_fences raw)) = Inl err"
  shows "scoreData eng (Some (JObj kvs)) = JNull"
  using assms by (simp add: scoreData_def parse_score_def)

lemma EvaluationDetail_raw:
  assumes "\<not> js_truthy (Some (scoreData eng (Some (JObj kvs))))"
  shows "EvaluationDetail eng (Some (JObj kvs)) =
     Inr \<lparr>view_title = map_of kvs ''job_title'', view_link = map_of kvs ''job_url'',
          view_description = map_of kvs ''job_description'',
          view_body = RawEvaluation (map_of kvs ''score_and_explanation'')\<rparr>"
  using assms by (simp add: EvaluationDetail_def Let_def)

lemma tab_labels_exist:
  "JNull \<notin> set xs \<Longrightarrow> \<exists>labels. map_err (\<lambda>x. js_get eng x ''job_title'') xs = Inr labels"
proof (induction xs)
  case Nil
  show ?case by simp
next
  case (Cons x xs)
  then obtain labels where rest: "map_err (\<lambda>x. js_get eng x ''job_title'') xs = Inr labels"
    by auto
  from Cons.prems have "x \<noteq> JNull" by auto
  then obtain v where "js_get eng x ''job_title'' = Inr v"
    by (cases x) simp_all
  with rest show ?case by simp
qed

lemma EvaluationTabs_array:
  assumes "xs \<noteq> []"
    and "map_err (\<lambda>x. js_get eng x ''job_title'') xs = Inr labels"
    and "EvaluationDetail eng (nth_opt xs j) = Inr d"
  shows "EvaluationTabs eng (JArr xs) j = Inr (Some \<lparr>tab_labels = labels, tab_content = d\<rparr>)"
  using assms by (simp add: EvaluationTabs_def)

lemma strip_fences_no_fence:
  "CHR 0x60 \<notin> set s \<Longrightarrow> strip_fences s = s"
proof (induction s)
  case Nil
  show ?case by (simp add: strip_fences.simps)
next
  case (Cons c cs)
  then have "c \<noteq> CHR 0x60" by auto
  then have "\<not> prefix (fence @ ''json'') (c # cs)" "\<not> prefix fence (c # cs)"
    by (simp_all add: fence_def)
  with Cons show ?case by (simp add: strip_fences.simps)
qed

lemma strip_fences_plain:
  "trim (strip_fences ''not json at all'') = ''not json at all''"
proof -
  have "strip_fences ''not json at all'' = ''not json at all''"
    by (rule strip_fences_no_fence) simp
  then show ?thesis
    by (simp add: trim_def js_whitespace_def)
qed

text \<open>
  Claim C7. For every evaluation whose \<open>score_and_explanation\<close> is a text that
  \<open>JSON.parse\<close> rejects once the code-fence markers are removed and the text is
  trimmed, the component does not throw: it returns a view whose body is that text,
  as it was received. The failure stays with this one result: in a collection that
  holds it, the tab selector renders the label strip and, for every tab whose own
  detail renders, that detail. The text \<open>not json at all\<close> reaches \<open>JSON.parse\<close>
  unchanged.
\<close>

theorem parse_failure_renders_raw:
  assumes "map_of kvs ''score_and_explanation'' = Some (JStr raw)"
    and "JSON_parse eng (trim (strip_fences raw)) = Inl err"
  shows "EvaluationDetail eng (Some (JObj kvs)) =
           Inr \<lparr>view_title = map_of kvs ''job_title'', view_link = map_of kvs ''job_url'',
                view_description = map_of kvs ''job_description'',
                view_body = RawEvaluation (Some (JStr raw))\<rparr>
       \<and> (\<forall>xs j d. JObj kvs \<in> set xs \<and> JNull \<notin> set xs
              \<and> EvaluationDetail eng (nth_opt xs j) = Inr d \<longrightarrow>
            (\<exists>labels. length labels = length xs
               \<and> EvaluationTabs eng (JArr xs) j
                   = Inr (Some \<lparr>tab_labels = labels, tab_content = d\<rparr>)))
       \<and> trim (strip_fences ''not json at all'') = ''not json at all''"
proof (intro conjI allI impI)
  have "scoreData eng (Some (JObj kvs)) = JNull"
    using assms by (rule scoreData_parse_failure)
  then have "\<not> js_truthy (Some (scoreData eng (Some (JObj kvs))))"
    by simp
  then show "EvaluationDetail eng (Some (JObj kvs)) =
           Inr \<lparr>view_title = map_of kvs ''job_title'', view_link = map_of kvs ''job_url'',
                view_description = map_of kvs ''job_description'',
                view_body = RawEvaluation (Some (JStr raw))\<rparr>"
    using assms(1) by (simp add: EvaluationDetail_raw)
next
  fix xs j d
  assume a: "JObj kvs \<in> set xs \<and> JNull \<notin> set xs
      \<and> EvaluationDetail eng (nth_opt xs j) = Inr d"
  then have ne: "xs \<noteq> []" by auto
  from a obtain labels where l: "map_err (\<lambda>x. js_get eng x ''job_title'') xs = Inr labels"
    using tab_labels_exist by blast
  have "length labels = length xs"
    using l by (rule map_err_length)
  moreover have "EvaluationTabs eng (JArr xs) j
      = Inr (Some \<lparr>tab_labels = labels, tab_content = d\<rparr>)"
    using ne l a by (simp add: EvaluationTabs_array)
  ultimately show "\<exists>labels. length labels = length xs
      \<and> EvaluationTabs eng (JArr xs) j = Inr (Some \<lparr>tab_labels = labels, tab_content = d\<rparr>)"
    by blast
next
  show "trim (strip_fences ''not json at all'') = ''not json at all''"
    by (rule strip_fences_plain)
qed

theorem parse_failure_renders_raw_witness:
  "EvaluationDetail example_engine
     (Some (JObj [(''job_title'', JStr ''Engineer''), (''job_description'', JStr ''Build''),
                  (''score_and_explanation'', JStr ''not json at all'')]))
   = Inr \<lparr>view_title = Some (JStr ''Engineer''), view_link = None,
          view_description = Some (JStr ''Build''),
          view_body = RawEvaluation (Some (JStr ''not json at all''))\<rparr>"
proof -
  have field: "map_of [(''job_title'', JStr ''Engineer''), (''job_description'', JStr ''Build''),
                    (''score_and_explanation'', JStr ''not json at all'')]
                 ''score_and_explanation'' = Some (JStr ''not json at all'')"
    by simp
  have rejected: "JSON_parse example_engine (trim (strip_fences ''not json at all''))
                    = Inl (SyntaxError ''Unexpected token'')"
    unfolding strip_fences_plain by (simp add: example_engine_def)
  show ?thesis
    using parse_failure_renders_raw [OF field rejected] by simp
qed

text \<open>
  The raw display covers the texts that \<open>JSON.parse\<close> rejects (and the ones whose
  value is falsy). A text that parses to a truthy value of another shape, a number
  for instance, is outside it: the component reads \<open>scoreData.experience.score\<close>
  with no test and throws.
\<close>

lemma EvaluationDetail_other_shape_throws:
  assumes "map_of kvs ''score_and_explanation'' = Some (JStr raw)"
    and "JSON_parse eng (trim (strip_fences raw)) = Inr (JNum 42)"
  shows "EvaluationDetail eng (Some (JObj kvs)) = Inl (TypeError (null_read_message eng ''score''))"
proof -
  have "scoreData eng (Some (JObj kvs)) = JNum 42"
    using assms by (simp add: scoreData_def parse_score_def)
  moreover have "render_scores eng (JNum 42) = Inl (TypeError (null_read_message eng ''score''))"
    by (simp add: render_scores_def render_card_def)
  ultimately show ?thesis
    by (simp add: EvaluationDetail_def Let_def)
qed

section \<open>Properties of the request and of its response\<close>

lemma fetches_handleResponse:
  "fetches (case handleResponse eng r of
              Inl error \<Rightarrow>
                [ConsoleError ''Error submitting data:'' error,
                 ToastError (if message error \<noteq> '''' then message error
                             else ''An error occurred during evaluation'')]
            | Inr evs \<Rightarrow> evs) = []"
proof (cases "handleResponse eng r")
  case (Inl e)
  then show ?thesis by (simp add: fetches_def)
next
  case (Inr evs)
  with handleResponse_events [OF Inr] show ?thesis
    by (auto simp add: fetches_def)
qed

lemma json_escape_plain:
  "json_escape CHR ''h'' = ''h''" "json_escape CHR ''t'' = ''t''"
  "json_escape CHR ''p'' = ''p''" "json_escape CHR '':'' = '':''"
  "json_escape CHR ''/'' = ''/''" "json_escape CHR ''a'' = ''a''"
  by (simp_all add: json_escape_def)

lemma JSON_stringify_example:
  "JSON_stringify (nonblank ['''', ''http://a'', ''''])
     = ''['' @ [CHR 0x22] @ ''http://a'' @ [CHR 0x22] @ '']''"
  by (simp add: JSON_stringify_def json_quote_def json_escape_plain trim_examples)

text \<open>
  Claim C4. For every list of job URLs and of job descriptions of a submission that
  passes the three checks, exactly one request is issued, and its form data hold
  the file, then the field \<open>job_urls\<close> with the JSON text of the entries of
  \<open>jobUrls\<close> that are not blank after trimming, in their order, then the field
  \<open>job_descriptions\<close> likewise, then the credential; a field whose list has no
  such entry is absent from the form data. The job URLs \<open>["", "http://a", ""]\<close> are
  sent as \<open>["http://a"]\<close>.
\<close>

theorem payload_lists:
  assumes "cvFile s = Some f"
    and "\<not> (nonblank (jobUrls s) = [] \<and> nonblank (jobDescriptions s) = [])"
    and "trim (apiKey s) \<noteq> ''''"
  shows "fetches (handleSubmit eng w fetch s) = [Fetch evaluate_url (payload f s)]
       \<and> map_of (payload f s) ''job_urls''
           = (if nonblank (jobUrls s) = [] then None
              else Some (StringValue (JSON_stringify (nonblank (jobUrls s)))))
       \<and> map_of (payload f s) ''job_descriptions''
           = (if nonblank (jobDescriptions s) = [] then None
              else Some (StringValue (JSON_stringify (nonblank (jobDescriptions s)))))
       \<and> JSON_stringify (nonblank ['''', ''http://a'', ''''])
           = ''['' @ [CHR 0x22] @ ''http://a'' @ [CHR 0x22] @ '']''"
proof -
  have "fetches (handleSubmit eng w fetch s) = [Fetch evaluate_url (payload f s)]"
    unfolding handleSubmit_request [OF assms, of eng w fetch]
    using fetches_handleResponse [of eng "fetch (payload f s)"]
    by (simp add: fetches_def)
  moreover have "map_of (payload f s) ''job_urls''
      = (if nonblank (jobUrls s) = [] then None
         else Some (StringValue (JSON_stringify (nonblank (jobUrls s)))))"
    by simp
  moreover have "map_of (payload f s) ''job_descriptions''
      = (if nonblank (jobDescriptions s) = [] then None
         else Some (StringValue (JSON_stringify (nonblank (jobDescriptions s)))))"
    by simp
  ultimately show ?thesis
    using JSON_stringify_example by simp
qed

theorem payload_lists_witness:
  "fetches (handleSubmit example_engine example_browser (\<lambda>d. Rejected (Error ''offline''))
      example_app)
   = [Fetch evaluate_url
        [(''cv'', FileValue example_file),
         (''job_urls'', StringValue (''['' @ [CHR 0x22] @ ''http://a'' @ [CHR 0x22] @ '']'')),
         (''api_key'', StringValue ''sk-1'')]]"
  using payload_lists [of example_app example_file example_engine example_browser
      "\<lambda>d. Rejected (Error ''offline'')"]
  by (simp add: example_app_def initial_app_def trim_examples)

lemma handleResponse_null_body:
  "handleResponse eng (Response True (Inr JNull))
     = Inl (TypeError (null_read_message eng ''evaluations''))"
  by (simp add: handleResponse_def)

text \<open>
  The claim as written fails for a successful response whose body is the JSON value
  \<open>null\<close>: that body has no \<open>evaluations\<close> field, the read \<open>data.evaluations\<close>
  throws, and the \<open>catch\<close> clause shows an error notification.
\<close>

theorem null_body_error_counterexample:
  "toasts (handleSubmit example_engine example_browser (\<lambda>d. Response True (Inr JNull))
             example_app)
     = [ToastError ''Cannot read properties of null (reading evaluations)'']
   \<and> evaluations (run example_app
         (handleSubmit example_engine example_browser (\<lambda>d. Response True (Inr JNull))
            example_app))
     = evaluations example_app"
proof -
  have cv: "cvFile example_app = Some example_file"
    by (simp add: example_app_def)
  have targets: "\<not> (nonblank (jobUrls example_app) = []
      \<and> nonblank (jobDescriptions example_app) = [])"
    by (simp add: example_app_def trim_examples)
  have key: "trim (apiKey example_app) \<noteq> ''''"
    by (simp add: example_app_def trim_examples)
  have ev: "handleSubmit example_engine example_browser (\<lambda>d. Response True (Inr JNull))
              example_app =
     [SetLoading True, SetLoadingMessage ''Preparing your data...'',
      SetLoadingMessage ''Analyzing your resume against job requirements...'',
      Fetch evaluate_url (payload example_file example_app),
      ConsoleError ''Error submitting data:''
        (TypeError ''Cannot read properties of null (reading evaluations)''),
      ToastError ''Cannot read properties of null (reading evaluations)'',
      SetLoading False, SetLoadingMessage '''']"
    unfolding handleSubmit_request [OF cv targets key] handleResponse_null_body
    by (simp add: example_engine_def)
  show ?thesis
    unfolding ev by (simp add: toasts_def run_simps)
qed

text \<open>
  Claim C10, as amended. For every submission that passes the three checks and
  whose response is successful with a JSON body other than \<open>null\<close>: when the body
  has no \<open>evaluations\<close> field (the read \<open>data.evaluations\<close> gives \<open>undefined\<close>), no
  notification at all is emitted, the results, the active tab and the view are
  unchanged and the controller is idle again; when \<open>evaluations\<close> is the empty
  array, the results become the empty collection, the active tab is 0, the only
  notification is the success message reporting 0 matches, the view is \<open>results\<close>
  and the controller is idle again.
\<close>

theorem ok_response_without_evaluations:
  assumes "cvFile s = Some f"
    and "\<not> (nonblank (jobUrls s) = [] \<and> nonblank (jobDescriptions s) = [])"
    and "trim (apiKey s) \<noteq> ''''"
    and "fetch (payload f s) = Response True (Inr data)"
  shows "(js_get eng data ''evaluations'' = Inr None \<longrightarrow>
            toasts (handleSubmit eng w fetch s) = []
            \<and> evaluations (run s (handleSubmit eng w fetch s)) = evaluations s
            \<and> activeTab (run s (handleSubmit eng w fetch s)) = activeTab s
            \<and> currentView (run s (handleSubmit eng w fetch s)) = currentView s
            \<and> \<not> loading (run s (handleSubmit eng w fetch s)))
       \<and> (js_get eng data ''evaluations'' = Inr (Some (JArr [])) \<longrightarrow>
            toasts (handleSubmit eng w fetch s)
              = [ToastSuccess ''Successfully evaluated 0 job matches!'']
            \<and> evaluations (run s (handleSubmit eng w fetch s)) = JArr []
            \<and> activeTab (run s (handleSubmit eng w fetch s)) = 0
            \<and> currentView (run s (handleSubmit eng w fetch s)) = ''results''
            \<and> \<not> loading (run s (handleSubmit eng w fetch s)))"
proof (intro conjI impI)
  assume "js_get eng data ''evaluations'' = Inr None"
  then have ev: "handleSubmit eng w fetch s =
     [SetLoading True, SetLoadingMessage ''Preparing your data...'',
      SetLoadingMessage ''Analyzing your resume against job requirements...'',
      Fetch evaluate_url (payload f s), SetLoading False, SetLoadingMessage '''']"
    using handleSubmit_request [OF assms(1-3), of eng w fetch] assms(4)
    by (simp add: handleResponse_absent)
  show "toasts (handleSubmit eng w fetch s) = []"
    unfolding ev by (simp add: toasts_def)
  show "evaluations (run s (handleSubmit eng w fetch s)) = evaluations s"
    unfolding ev by (simp add: run_simps)
  show "activeTab (run s (handleSubmit eng w fetch s)) = activeTab s"
    unfolding ev by (simp add: run_simps)
  show "currentView (run s (handleSubmit eng w fetch s)) = currentView s"
    unfolding ev by (simp add: run_simps)
  show "\<not> loading (run s (handleSubmit eng w fetch s))"
    unfolding ev by (simp add: run_simps)
next
  assume "js_get eng data ''evaluations'' = Inr (Some (JArr []))"
  then have "handleResponse eng (Response True (Inr data)) =
     Inr [SetEvaluations (JArr []), SetActiveTab 0,
          ToastSuccess ''Successfully evaluated 0 job matches!'', SetCurrentView ''results'']"
    by (simp add: handleResponse_def show_nat_digit digit_char_def)
  then have ev: "handleSubmit eng w fetch s =
     [SetLoading True, SetLoadingMessage ''Preparing your data...'',
      SetLoadingMessage ''Analyzing your resume against job requirements...'',
      Fetch evaluate_url (payload f s),
      SetEvaluations (JArr []), SetActiveTab 0,
      ToastSuccess ''Successfully evaluated 0 job matches!'', SetCurrentView ''results'',
      SetLoading False, SetLoadingMessage '''']"
    using handleSubmit_request [OF assms(1-3), of eng w fetch] assms(4)
    by simp
  show "toasts (handleSubmit eng w fetch s)
          = [ToastSuccess ''Successfully evaluated 0 job matches!'']"
    unfolding ev by (simp add: toasts_def)
  show "evaluations (run s (handleSubmit eng w fetch s)) = JArr []"
    unfolding ev by (simp add: run_simps)
  show "activeTab (run s (handleSubmit eng w fetch s)) = 0"
    unfolding ev by (simp add: run_simps)
  show "currentView (run s (handleSubmit eng w fetch s)) = ''results''"
    unfolding ev by (simp add: run_simps)
  show "\<not> loading (run s (handleSubmit eng w fetch s))"
    unfolding ev by (simp add: run_simps)
qed

theorem ok_response_without_evaluations_witness:
  "toasts (handleSubmit example_engine example_browser
        (\<lambda>d. Response True (Inr (JObj [(''status'', JStr ''ok'')])))
        (example_app\<lparr>evaluations := JArr [JNull], activeTab := 5\<rparr>)) = []
   \<and> evaluations (run (example_app\<lparr>evaluations := JArr [JNull], activeTab := 5\<rparr>)
       (handleSubmit example_engine example_browser
          (\<lambda>d. Response True (Inr (JObj [(''status'', JStr ''ok'')])))
          (example_app\<lparr>evaluations := JArr [JNull], activeTab := 5\<rparr>))) = JArr [JNull]
   \<and> toasts (handleSubmit example_engine example_browser
        (\<lambda>d. Response True (Inr (JObj [(''evaluations'', JArr [])])))
        (example_app\<lparr>evaluations := JArr [JNull], activeTab := 5\<rparr>))
      = [ToastSuccess ''Successfully evaluated 0 job matches!'']
   \<and> evaluations (run (example_app\<lparr>evaluations := JArr [JNull], activeTab := 5\<rparr>)
       (handleSubmit example_engine example_browser
          (\<lambda>d. Response True (Inr (JObj [(''evaluations'', JArr [])])))
          (example_app\<lparr>evaluations := JArr [JNull], activeTab := 5\<rparr>))) = JArr []"
  using ok_response_without_evaluations
    [of "example_app\<lparr>evaluations := JArr [JNull], activeTab := 5\<rparr>" example_file
        "\<lambda>d. Response True (Inr (JObj [(''status'', JStr ''ok'')]))"
        "JObj [(''status'', JStr ''ok'')]" example_engine example_browser]
    ok_response_without_evaluations
    [of "example_app\<lparr>evaluations := JArr [JNull], activeTab := 5\<rparr>" example_file
        "\<lambda>d. Response True (Inr (JObj [(''evaluations'', JArr [])]))"
        "JObj [(''evaluations'', JArr [])]" example_engine example_browser]
  by (simp add: example_app_def initial_app_def trim_examples)

section \<open>Properties of the file selector\<close>

lemma handleCvChange_null:
  "handleCvChange eng \<lparr>target_files = None\<rparr> = Inl (TypeError (null_read_message eng ''0''))"
  by (simp add: handleCvChange_def)

lemma handleChange_selects:
  "handleChange (handleCvChange eng) \<lparr>target_files = Some (f # fs)\<rparr>
     = ([SetFileName (file_name f), SetShowReminder False], Inr [SetCvFile (Some f)])"
  by (simp add: handleChange_def handleCvChange_def)

text \<open>
  Claim C6 does not hold of the code. \<open>clearFile\<close> calls the callback with
  \<open>files: null\<close>, and \<open>handleCvChange\<close> reads \<open>e.target.files[0]\<close> without the
  test that \<open>handleChange\<close> makes: the read throws a type error, \<open>setCvFile\<close> is
  never called and the application keeps the file. The file selector shows no file
  name any more, and a submission made afterwards passes the file check and sends
  the file that was cleared.
\<close>

theorem clear_throws_and_keeps_file:
  "click_clear eng (u, s\<lparr>cvFile := Some f\<rparr>)
     = (Some (TypeError (null_read_message eng ''0'')), u\<lparr>fileName := ''''\<rparr>,
        s\<lparr>cvFile := Some f\<rparr>)
   \<and> cvFile (snd (snd (click_clear eng (u, s\<lparr>cvFile := Some f\<rparr>)))) = Some f
   \<and> fetches (handleSubmit eng w fetch (snd (snd (click_clear eng (u, example_app)))))
       = [Fetch evaluate_url
            [(''cv'', FileValue example_file),
             (''job_urls'', StringValue (JSON_stringify [''http://a''])),
             (''api_key'', StringValue ''sk-1'')]]"
proof -
  have click: "click_clear eng (u, t) =
      (Some (TypeError (null_read_message eng ''0'')), u\<lparr>fileName := ''''\<rparr>, t)" for t
    by (simp add: click_clear_def clearFile_def handleCvChange_null)
  have cv: "cvFile example_app = Some example_file"
    by (simp add: example_app_def)
  have targets: "\<not> (nonblank (jobUrls example_app) = []
      \<and> nonblank (jobDescriptions example_app) = [])"
    by (simp add: example_app_def trim_examples)
  have key: "trim (apiKey example_app) \<noteq> ''''"
    by (simp add: example_app_def trim_examples)
  have "fetches (handleSubmit eng w fetch example_app)
      = [Fetch evaluate_url (payload example_file example_app)]"
    unfolding handleSubmit_request [OF cv targets key, of eng w fetch]
    using fetches_handleResponse [of eng "fetch (payload example_file example_app)"]
    by (simp add: fetches_def)
  then have "fetches (handleSubmit eng w fetch example_app)
      = [Fetch evaluate_url
           [(''cv'', FileValue example_file),
            (''job_urls'', StringValue (JSON_stringify [''http://a''])),
            (''api_key'', StringValue ''sk-1'')]]"
    by (simp add: example_app_def initial_app_def trim_examples)
  then show ?thesis
    by (simp add: click)
qed

end
